theory Spec2Isabelle
  imports Complex_Main
begin

section \<open>Numbers, game objects and entity classes\<close>

text \<open>
  The game is TypeScript; every \<^verbatim>\<open>number\<close> of the source is an IEEE double.  The model
  uses \<^typ>\<open>int\<close> for the quantities the program only ever holds as integers (levels, wave
  indices, health, score, millisecond time stamps and delays) and \<^typ>\<open>real\<close> for
  coordinates, speeds and probabilities.  Rounding of doubles is not modelled: the
  statements below are about the exact arithmetic the formulas of the source denote.

  \<^verbatim>\<open>interface GameObject { x; y; width; height; speed; draw; update }\<close> (types.ts) is the
  root record; each class that \<^verbatim>\<open>implements GameObject\<close> extends it, so a method taking
  \<^verbatim>\<open>other: GameObject\<close> takes any extension of the record.
\<close>

record gameObject =
  x :: real
  y :: real
  width :: real
  height :: real
  speed :: real

datatype EnemyType = BASIC | SHOOTER | TANK | FAST

datatype PowerUpType = SHIELD | SPREAD_SHOT | SPEED | HEALTH

subsection \<open>Bullet (Bullet.ts)\<close>

record bullet = gameObject +
  isEnemyBullet :: bool
  angle :: real
  color :: string
  enemyType :: "EnemyType option"

text \<open>
  \<^verbatim>\<open>constructor(x, y, isEnemyBullet = false, angle = 0, customSpeed?, enemyType?)\<close>; an
  omitted optional argument is \<^term>\<open>None\<close>.
\<close>

definition Bullet_new ::
  "real \<Rightarrow> real \<Rightarrow> bool \<Rightarrow> real \<Rightarrow> real option \<Rightarrow> EnemyType option \<Rightarrow> bullet" where
  "Bullet_new bx by enemyBullet ang customSpeed etype =
     \<lparr> x = bx, y = by, width = 12, height = 12,
       speed = (case customSpeed of Some s \<Rightarrow> s | None \<Rightarrow> (if enemyBullet then 5 else 7)),
       isEnemyBullet = enemyBullet,
       angle = ang,
       bullet.color = (if enemyBullet
                       then (if etype = Some BASIC then ''#FF8C00'' else ''#00ff00'')
                       else ''#ff3366''),
       enemyType = etype \<rparr>"

definition Bullet_update :: "bullet \<Rightarrow> bullet" where
  "Bullet_update b =
     (if angle b \<noteq> 0
      then b\<lparr> x := x b + sin (angle b) * speed b,
              y := y b + - cos (angle b) * speed b \<rparr>
      else b\<lparr> y := y b + (if isEnemyBullet b then speed b else - speed b) \<rparr>)"

definition Bullet_checkCollision :: "'a bullet_scheme \<Rightarrow> 'b gameObject_scheme \<Rightarrow> bool" where
  "Bullet_checkCollision this other \<longleftrightarrow>
     x this < x other + width other \<and>
     x this + width this > x other \<and>
     y this < y other + height other \<and>
     y this + height this > y other"

subsection \<open>PowerUp (PowerUp.ts)\<close>

record powerUp = gameObject +
  type :: "PowerUpType option"
  color :: string
  pulse :: real
  pulseDirection :: real
  rotation :: real

text \<open>
  The type of a power-up is read from a table at a random index
  (\<^verbatim>\<open>powerUpTypes[Math.floor(Math.random() * powerUpTypes.length)]\<close>); \<^term>\<open>None\<close> is
  JavaScript's \<^verbatim>\<open>undefined\<close>, which the constructor's \<^verbatim>\<open>default:\<close> branch colours white.
\<close>

definition PowerUp_new :: "real \<Rightarrow> real \<Rightarrow> PowerUpType option \<Rightarrow> powerUp" where
  "PowerUp_new px py t =
     \<lparr> x = px, y = py, width = 30, height = 30, speed = 2,
       powerUp.type = t,
       powerUp.color = (case t of Some SHIELD \<Rightarrow> ''#00ffff'' | Some SPREAD_SHOT \<Rightarrow> ''#ff00ff''
                        | Some SPEED \<Rightarrow> ''#ffff00'' | Some HEALTH \<Rightarrow> ''#ff3366''
                        | None \<Rightarrow> ''#ffffff''),
       pulse = 0, pulseDirection = 1, rotation = 0 \<rparr>"

definition PowerUp_update :: "powerUp \<Rightarrow> powerUp" where
  "PowerUp_update p =
     (let p1 = p\<lparr> y := y p + speed p \<rparr>;
          p2 = p1\<lparr> pulse := pulse p1 + 0.05 * pulseDirection p1 \<rparr>;
          p3 = (if pulse p2 \<ge> 1 then p2\<lparr> pulseDirection := -1 \<rparr>
                else if pulse p2 \<le> 0 then p2\<lparr> pulseDirection := 1 \<rparr>
                else p2)
      in p3\<lparr> rotation := rotation p3 + 0.02 \<rparr>)"

definition PowerUp_checkCollision :: "'a powerUp_scheme \<Rightarrow> 'b gameObject_scheme \<Rightarrow> bool" where
  "PowerUp_checkCollision this other \<longleftrightarrow>
     x this - width this / 2 < x other + width other \<and>
     x this + width this / 2 > x other \<and>
     y this - height this / 2 < y other + height other \<and>
     y this + height this / 2 > y other"

subsection \<open>Math.random and Date.now\<close>

text \<open>
  \<^verbatim>\<open>Math.random()\<close> is a stream of values supplied by the environment, read in the order
  the program calls it; the JavaScript contract \<open>0 \<le> r < 1\<close> is a hypothesis of the
  theorems that need it, not part of the type.  \<^verbatim>\<open>Date.now()\<close> is the \<open>now\<close> argument
  of the functions that read the clock.
\<close>

record randomSource =
  outcomes :: "nat \<Rightarrow> real"
  drawn :: nat

definition Math_random :: "randomSource \<Rightarrow> real \<times> randomSource" where
  "Math_random rs = (outcomes rs (drawn rs), rs\<lparr> drawn := Suc (drawn rs) \<rparr>)"

definition unitInterval :: "randomSource \<Rightarrow> bool" where
  "unitInterval rs \<longleftrightarrow> (\<forall>n. 0 \<le> outcomes rs n \<and> outcomes rs n < 1)"

subsection \<open>Enemy (Enemy.ts)\<close>

datatype DivePhase = Ready | Diving | Returning

record enemy = gameObject +
  baseSpeed :: real
  verticalSpeed :: real
  direction :: real
  lastShot :: int
  type :: EnemyType
  health :: int
  shootProbability :: real
  dropPowerUpChance :: real
  color :: string
  targetY :: real
  pulseOffset :: real
  diveAtPlayer :: bool
  diverTimer :: int
  originalX :: real
  originalY :: real
  divePhase :: DivePhase
  imageLoaded :: bool
  currentLevel :: int
  bulletSpeedMultiplier :: real
  stuckTimer :: int
  initialSize :: real
  timeOffScreen :: int

definition BOUNDARY_PADDING :: real where "BOUNDARY_PADDING = 30"
definition GAME_WIDTH :: real where "GAME_WIDTH = 800"
definition GAME_HEIGHT :: real where "GAME_HEIGHT = 600"

definition setupType :: "enemy \<Rightarrow> enemy" where
  "setupType e =
     (case enemy.type e of
        SHOOTER \<Rightarrow> e\<lparr> enemy.health := 1, shootProbability := 0.4,
                       enemy.color := ''#999999'', verticalSpeed := 0.5 \<rparr>
      | TANK \<Rightarrow> e\<lparr> enemy.health := 3, shootProbability := 0.15,
                    speed := enemy.baseSpeed e * 0.5,
                    enemy.color := ''#0022cc'', verticalSpeed := 0.3 \<rparr>
      | FAST \<Rightarrow> e\<lparr> enemy.health := 1, shootProbability := 0.2,
                    speed := enemy.baseSpeed e * 2,
                    enemy.color := ''#66aaff'', verticalSpeed := 1 \<rparr>
      | BASIC \<Rightarrow> e\<lparr> enemy.health := 1, shootProbability := 0.1,
                     enemy.color := ''#4488ff'', verticalSpeed := 0.7 \<rparr>)"

definition calculateBulletSpeedMultiplier :: "enemy \<Rightarrow> enemy" where
  "calculateBulletSpeedMultiplier e =
     (let l = currentLevel e;
          m = (if l \<le> 1 then 0.2 else if l \<le> 2 then 0.3 else if l \<le> 3 then 0.4
               else if l \<le> 4 then 0.5 else if l \<le> 5 then 0.6 else if l \<le> 6 then 0.7
               else if l \<le> 7 then 0.8 else if l \<le> 8 then 0.9 else if l \<le> 9 then 1.0
               else 1.1);
          e1 = e\<lparr> enemy.bulletSpeedMultiplier := m \<rparr>
      in if enemy.type e1 = SHOOTER
         then e1\<lparr> enemy.bulletSpeedMultiplier := enemy.bulletSpeedMultiplier e1 + 0.1 \<rparr>
         else e1)"

text \<open>
  \<^verbatim>\<open>constructor(x, y, type = BASIC, level = 1)\<close>: the field initialisers, then the
  constructor body.  The image preloading has no effect on the fields.
\<close>

definition Enemy_new :: "real \<Rightarrow> real \<Rightarrow> EnemyType \<Rightarrow> int \<Rightarrow> enemy" where
  "Enemy_new ex ey t lvl =
     (let e0 = \<lparr> x = ex, y = ey - 100, width = 40, height = 40, speed = 1,
                 enemy.baseSpeed = 1, verticalSpeed = 0, direction = 1, lastShot = 0,
                 enemy.type = t, enemy.health = 1, shootProbability = 0.3,
                 dropPowerUpChance = 0.2, enemy.color = ''#4488ff'', targetY = ey,
                 pulseOffset = 0, diveAtPlayer = False, diverTimer = 0,
                 originalX = ex, originalY = ey, divePhase = Ready,
                 enemy.imageLoaded = False, currentLevel = lvl,
                 enemy.bulletSpeedMultiplier = 1.0, stuckTimer = 0, initialSize = 1,
                 timeOffScreen = 0 \<rparr>;
          e1 = calculateBulletSpeedMultiplier (setupType e0)
      in if enemy.type e1 = TANK
         then e1\<lparr> initialSize := 1.0, width := 60, height := 60 \<rparr>
         else e1)"

definition handleDiving :: "int \<Rightarrow> enemy \<Rightarrow> randomSource \<Rightarrow> enemy \<times> randomSource" where
  "handleDiving now e rs =
     (if divePhase e = Ready \<and> y e \<ge> targetY e - 20 then
        (let (r, rs1) = Math_random rs
         in if r < 0.005
            then (e\<lparr> divePhase := Diving, diverTimer := now + 3000 \<rparr>, rs1)
            else (e, rs1))
      else if divePhase e = Diving then
        (let e1 = e\<lparr> y := y e + verticalSpeed e * 3 \<rparr>
         in if now > diverTimer e1 \<or> y e1 > 600
            then (e1\<lparr> divePhase := Returning \<rparr>, rs)
            else (e1, rs))
      else if divePhase e = Returning then
        (let dx = originalX e - x e;
             dy = originalY e - y e;
             dist = sqrt (dx * dx + dy * dy)
         in if dist < 5
            then (e\<lparr> x := originalX e, y := originalY e, divePhase := Ready \<rparr>, rs)
            else (e\<lparr> x := x e + dx * 0.05, y := y e + dy * 0.05 \<rparr>, rs))
      else (e, rs))"

definition Enemy_update :: "int \<Rightarrow> enemy \<Rightarrow> randomSource \<Rightarrow> enemy \<times> randomSource" where
  "Enemy_update now e rs =
     (let e1 = (if y e < targetY e then e\<lparr> y := y e + verticalSpeed e \<rparr> else e);
          (e2, rs2) =
            (if diveAtPlayer e1 then handleDiving now e1 rs
             else
               (let e1a = e1\<lparr> x := x e1 + speed e1 * direction e1 \<rparr>
                in if x e1a \<le> BOUNDARY_PADDING \<or> x e1a + width e1a \<ge> GAME_WIDTH - BOUNDARY_PADDING
                   then (e1a\<lparr> direction := direction e1a * (- 1), y := y e1a + 10 \<rparr>, rs)
                   else (e1a, rs)));
          isOffScreen = (x e2 + width e2 < 0 \<or> x e2 > GAME_WIDTH \<or> y e2 + height e2 < 0
                         \<or> y e2 > GAME_HEIGHT + 100);
          e3 =
            (if isOffScreen then
               (let e2a = e2\<lparr> timeOffScreen := timeOffScreen e2 + 1 \<rparr>
                in if timeOffScreen e2a > 120 then
                     (let e2b = (if x e2a + width e2a < 0
                                 then e2a\<lparr> x := BOUNDARY_PADDING, direction := 1 \<rparr>
                                 else if x e2a > GAME_WIDTH
                                 then e2a\<lparr> x := GAME_WIDTH - width e2a - BOUNDARY_PADDING,
                                           direction := - 1 \<rparr>
                                 else e2a);
                          e2c = (if y e2b > GAME_HEIGHT + 100 then e2b\<lparr> y := 50 \<rparr> else e2b)
                      in e2c\<lparr> timeOffScreen := 0 \<rparr>)
                   else e2a)
             else e2\<lparr> timeOffScreen := 0 \<rparr>)
      in (e3\<lparr> pulseOffset := pulseOffset e3 + 0.1 \<rparr>, rs2))"

text \<open>
  \<^verbatim>\<open>draw(ctx)\<close> paints on the canvas, which is not modelled; its one effect on the
  object is the pulse animation counter.
\<close>

definition Enemy_draw :: "enemy \<Rightarrow> enemy" where
  "Enemy_draw e = e\<lparr> pulseOffset := pulseOffset e + 0.1 \<rparr>"

definition canShoot :: "int \<Rightarrow> enemy \<Rightarrow> randomSource \<Rightarrow> bool \<times> enemy \<times> randomSource" where
  "canShoot now e rs =
     (if y e \<ge> targetY e - 20 \<or> divePhase e = Diving then
        (if now - lastShot e \<ge> 3000 then
           (let (r, rs1) = Math_random rs
            in if r < shootProbability e / 20
               then (True, e\<lparr> lastShot := now \<rparr>, rs1)
               else (False, e, rs1))
         else (False, e, rs))
      else (False, e, rs))"

definition Enemy_shoot :: "enemy \<Rightarrow> randomSource \<Rightarrow> bullet \<times> randomSource" where
  "Enemy_shoot e rs =
     (let baseBulletSpeed = 3 * enemy.bulletSpeedMultiplier e;
          (finalSpeed, rs1) =
            (if enemy.type e = SHOOTER then (baseBulletSpeed + 0.2, rs)
             else if enemy.type e = TANK then (baseBulletSpeed, rs)
             else if enemy.type e = FAST then
               (let (r, rs') = Math_random rs in (baseBulletSpeed + (r * 0.4 - 0.2), rs'))
             else (baseBulletSpeed, rs))
      in (Bullet_new (x e + width e / 2) (y e + height e) True 0 (Some finalSpeed)
            (Some (enemy.type e)), rs1))"

text \<open>\<^verbatim>\<open>hit()\<close> returns the mutated enemy and the method's result (destroyed or not).\<close>

definition hit :: "enemy \<Rightarrow> enemy \<times> bool" where
  "hit e =
     (let e1 = e\<lparr> enemy.health := enemy.health e - 1 \<rparr>;
          e2 = (if enemy.type e1 = TANK then e1\<lparr> initialSize := initialSize e1 - 0.2 \<rparr> else e1)
      in (e2, enemy.health e2 \<le> 0))"

text \<open>
  The scale factor \<^verbatim>\<open>draw\<close> applies to a Tank's hexagon (before the pulse animation):
  \<^verbatim>\<open>0.7 + (this.initialSize * (this.health / 3)) * 0.5\<close>.
\<close>

definition sizeMultiplier :: "enemy \<Rightarrow> real" where
  "sizeMultiplier e = 0.7 + (initialSize e * (of_int (enemy.health e) / 3)) * 0.5"

definition powerUpTypes :: "PowerUpType list" where
  "powerUpTypes = [SHIELD, SPREAD_SHOT, SPEED, HEALTH]"

text \<open>
  An array read \<^verbatim>\<open>xs[Math.floor(r)]\<close>: \<^verbatim>\<open>undefined\<close> (\<^term>\<open>None\<close>) outside the array.
\<close>

definition at_floor :: "'a list \<Rightarrow> real \<Rightarrow> 'a option" where
  "at_floor xs r =
     (if 0 \<le> \<lfloor>r\<rfloor> \<and> nat \<lfloor>r\<rfloor> < length xs then Some (xs ! nat \<lfloor>r\<rfloor>) else None)"

definition dropPowerUp :: "enemy \<Rightarrow> randomSource \<Rightarrow> powerUp option \<times> randomSource" where
  "dropPowerUp e rs =
     (let (r, rs1) = Math_random rs
      in if r > dropPowerUpChance e then (None, rs1)
         else
           (let (r2, rs2) = Math_random rs1;
                randomType = at_floor powerUpTypes (r2 * of_nat (length powerUpTypes))
            in (Some (PowerUp_new (x e + width e / 2) (y e + height e / 2) randomType), rs2)))"

subsection \<open>Player (Player.ts)\<close>

text \<open>
  The player's image element and its \<^verbatim>\<open>onload\<close> callback only decide how \<^verbatim>\<open>draw\<close>
  paints; the element is not modelled and \<open>imageLoaded\<close> stays as the constructor
  leaves it.
\<close>

record player = gameObject +
  baseSpeed :: real
  hasShield :: bool
  hasSpreadShot :: bool
  shieldTimer :: int
  spreadShotTimer :: int
  speedTimer :: int
  invulnerable :: bool
  invulnerableTimer :: int
  powerUpTimer :: int
  color :: string
  fireRate :: int
  imageLoaded :: bool

definition Player_new :: "real \<Rightarrow> real \<Rightarrow> player" where
  "Player_new px py =
     \<lparr> x = px, y = py, width = 50, height = 50, speed = 5,
       player.baseSpeed = 5, hasShield = False, hasSpreadShot = False,
       shieldTimer = 0, spreadShotTimer = 0, speedTimer = 0,
       invulnerable = False, invulnerableTimer = 0, powerUpTimer = 0,
       player.color = ''#4488ff'', fireRate = 250, player.imageLoaded = False \<rparr>"

definition moveLeft :: "player \<Rightarrow> player" where
  "moveLeft p = p\<lparr> x := max 0 (x p - speed p) \<rparr>"

definition moveRight :: "player \<Rightarrow> player" where
  "moveRight p = p\<lparr> x := min (800 - width p) (x p + speed p) \<rparr>"

definition moveUp :: "player \<Rightarrow> player" where
  "moveUp p = p\<lparr> y := max 0 (y p - speed p) \<rparr>"

definition moveDown :: "player \<Rightarrow> player" where
  "moveDown p = p\<lparr> y := min (600 - height p) (y p + speed p) \<rparr>"

text \<open>
  \<^verbatim>\<open>shoot(): Bullet | Bullet[]\<close>; the caller pushes the one bullet or all of the array,
  so the model returns the list of bullets to push.
\<close>

definition Player_shoot :: "player \<Rightarrow> bullet list" where
  "Player_shoot p =
     (if hasSpreadShot p
      then [Bullet_new (x p + width p / 2) (y p) False 0 None None,
            Bullet_new (x p + width p / 2) (y p) False (- 0.3) None None,
            Bullet_new (x p + width p / 2) (y p) False 0.3 None None]
      else [Bullet_new (x p + width p / 2) (y p) False 0 None None])"

definition Player_update :: "int \<Rightarrow> player \<Rightarrow> player" where
  "Player_update now p =
     (let p1 = (if shieldTimer p > 0 \<and> now > shieldTimer p
                then p\<lparr> hasShield := False, shieldTimer := 0 \<rparr> else p);
          p2 = (if spreadShotTimer p1 > 0 \<and> now > spreadShotTimer p1
                then p1\<lparr> hasSpreadShot := False, spreadShotTimer := 0 \<rparr> else p1);
          p3 = (if speedTimer p2 > 0 \<and> now > speedTimer p2
                then p2\<lparr> speed := player.baseSpeed p2, speedTimer := 0 \<rparr> else p2)
      in if invulnerableTimer p3 > 0 \<and> now > invulnerableTimer p3
         then p3\<lparr> invulnerable := False, invulnerableTimer := 0 \<rparr> else p3)"

definition activatePowerUp :: "PowerUpType option \<Rightarrow> int \<Rightarrow> player \<Rightarrow> player" where
  "activatePowerUp t now p =
     (let duration = 5000
      in case t of
           Some SHIELD \<Rightarrow> p\<lparr> hasShield := True, shieldTimer := now + duration \<rparr>
         | Some SPREAD_SHOT \<Rightarrow> p\<lparr> hasSpreadShot := True, spreadShotTimer := now + duration \<rparr>
         | Some SPEED \<Rightarrow> p\<lparr> speed := player.baseSpeed p * 1.5, speedTimer := now + duration \<rparr>
         | Some HEALTH \<Rightarrow> p
         | None \<Rightarrow> p)"

definition makeInvulnerable :: "int \<Rightarrow> player \<Rightarrow> player" where
  "makeInvulnerable now p = p\<lparr> invulnerable := True, invulnerableTimer := now + 2000 \<rparr>"

subsection \<open>Particle, Star and ExplosionGIF\<close>

record particle = gameObject +
  color :: string
  life :: real
  velocity :: "real \<times> real"

definition Particle_new :: "real \<Rightarrow> real \<Rightarrow> string \<Rightarrow> randomSource \<Rightarrow> particle \<times> randomSource" where
  "Particle_new px py col rs =
     (let (r1, rs1) = Math_random rs;
          ang = r1 * pi * 2;
          (r2, rs2) = Math_random rs1;
          sp = r2 * 3
      in (\<lparr> x = px, y = py, width = 2, height = 2, speed = 3,
            particle.color = col, life = 1.0,
            velocity = (cos ang * sp, sin ang * sp) \<rparr>, rs2))"

definition Particle_update :: "particle \<Rightarrow> particle" where
  "Particle_update p =
     p\<lparr> x := x p + fst (velocity p), y := y p + snd (velocity p), life := life p - 0.02 \<rparr>"

record star = gameObject +
  brightness :: real

definition Star_new :: "real \<Rightarrow> real \<Rightarrow> randomSource \<Rightarrow> star \<times> randomSource" where
  "Star_new sx sy rs =
     (let (r1, rs1) = Math_random rs;
          (r2, rs2) = Math_random rs1
      in (\<lparr> x = sx, y = sy, width = 2, height = 2, speed = r1 * 0.5 + 0.1,
            brightness = r2 * 0.5 + 0.5 \<rparr>, rs2))"

definition Star_update :: "star \<Rightarrow> randomSource \<Rightarrow> star \<times> randomSource" where
  "Star_update s rs =
     (let s1 = s\<lparr> y := y s + speed s \<rparr>
      in if y s1 > 600
         then (let (r, rs1) = Math_random rs in (s1\<lparr> y := 0, x := r * 800 \<rparr>, rs1))
         else (s1, rs))"

text \<open>
  An explosion is an image element of the page.  The model keeps the fields the game
  loop reads (position, size, start time, duration, \<open>isActive\<close>); the element, its
  style and the canvas scale are not modelled.  The constructor draws one random number
  for the element's id and, for a regular enemy, one more to choose between the two
  images; it also arms a timer that calls \<^verbatim>\<open>remove()\<close>, for which the object needs an
  identity: \<open>ref\<close>.
\<close>

datatype ExplosionType = RegularEnemy | TankEnemy | PlayerExplosion

record explosionGIF = gameObject +
  ref :: nat
  type :: ExplosionType
  startTime :: int
  duration :: int
  isActive :: bool

definition ExplosionGIF_new ::
  "nat \<Rightarrow> int \<Rightarrow> real \<Rightarrow> real \<Rightarrow> ExplosionType \<Rightarrow> randomSource \<Rightarrow> explosionGIF \<times> randomSource" where
  "ExplosionGIF_new r now ex ey t rs =
     (let (idDraw, rs1) = Math_random rs;
          g0 = \<lparr> x = ex, y = ey, width = 0, height = 0, speed = 0, ref = r,
                 explosionGIF.type = t, startTime = now, duration = 0, isActive = True \<rparr>
      in case t of
           PlayerExplosion \<Rightarrow> (g0\<lparr> width := 100, height := 128, duration := 420 \<rparr>, rs1)
         | TankEnemy \<Rightarrow> (g0\<lparr> width := 80, height := 75, duration := 540 \<rparr>, rs1)
         | RegularEnemy \<Rightarrow>
             (let (r2, rs2) = Math_random rs1
              in if \<lfloor>r2 * 2\<rfloor> = 0
                 then (g0\<lparr> duration := 660, width := 80, height := 68 \<rparr>, rs2)
                 else (g0\<lparr> duration := 790, width := 80, height := 80 \<rparr>, rs2)))"

definition ExplosionGIF_remove :: "explosionGIF \<Rightarrow> explosionGIF" where
  "ExplosionGIF_remove g = g\<lparr> isActive := False \<rparr>"

definition ExplosionGIF_update :: "int \<Rightarrow> explosionGIF \<Rightarrow> explosionGIF" where
  "ExplosionGIF_update now g =
     (if isActive g
      then (if now - startTime g > duration g then ExplosionGIF_remove g else g)
      else g)"

definition createForEnemy ::
  "nat \<Rightarrow> int \<Rightarrow> real \<Rightarrow> real \<Rightarrow> EnemyType option \<Rightarrow> randomSource \<Rightarrow> explosionGIF \<times> randomSource" where
  "createForEnemy r now ex ey t rs =
     (if t = Some TANK then ExplosionGIF_new r now ex ey TankEnemy rs
      else ExplosionGIF_new r now ex ey RegularEnemy rs)"

definition createForPlayer ::
  "nat \<Rightarrow> int \<Rightarrow> real \<Rightarrow> real \<Rightarrow> randomSource \<Rightarrow> explosionGIF \<times> randomSource" where
  "createForPlayer r now ex ey rs = ExplosionGIF_new r now ex ey PlayerExplosion rs"

text \<open>
  \<^verbatim>\<open>interface Collidable extends GameObject { checkCollision(other) }\<close>: the classes with a
  \<^verbatim>\<open>checkCollision\<close> method are Bullet and PowerUp.  \<open>checkCollision a b\<close> is the call
  \<^verbatim>\<open>a.checkCollision(b)\<close>, dispatched on the class of the receiver.
\<close>

datatype collidable = OfBullet bullet | OfPowerUp powerUp

fun checkCollision :: "collidable \<Rightarrow> collidable \<Rightarrow> bool" where
  "checkCollision (OfBullet a) (OfBullet b) = Bullet_checkCollision a b"
| "checkCollision (OfBullet a) (OfPowerUp q) = Bullet_checkCollision a q"
| "checkCollision (OfPowerUp p) (OfBullet b) = PowerUp_checkCollision p b"
| "checkCollision (OfPowerUp p) (OfPowerUp q) = PowerUp_checkCollision p q"

section \<open>Difficulty configuration (Game.tsx, getDifficultyConfig)\<close>

record difficultyConfig =
  baseEnemiesPerWave :: int
  maxWaves :: int
  waveDelay :: int
  enemyHealthMultiplier :: int
  enemySpeedMultiplier :: real
  shooterProbability :: real
  tankProbability :: real
  fastProbability :: real
  bulletSpeedMultiplier :: real
  spreadShotLevel :: int
  fireRateMultiplier :: real
  powerUpChance :: real
  divingEnemies :: bool
  enemiesShootAngled :: bool
  formationComplexity :: int

definition getDifficultyConfig :: "int \<Rightarrow> difficultyConfig" where
  "getDifficultyConfig lvl =
     \<lparr> baseEnemiesPerWave =
         (if lvl = 1 then 5 else min 15 (5 + \<lfloor>of_int lvl * (1.2::real)\<rfloor>)),
       maxWaves = min 6 (1 + \<lfloor>of_int lvl / (1.5::real)\<rfloor>),
       waveDelay = max 2000 (5000 - (lvl - 1) * 300),
       enemyHealthMultiplier = min 3 (1 + \<lfloor>of_int lvl / (3::real)\<rfloor>),
       enemySpeedMultiplier = 1 + (of_int lvl - 1) * 0.08,
       shooterProbability =
         min 0.4 (if lvl = 1 then 0.0 else 0.05 + (of_int lvl - 1) * 0.05),
       tankProbability =
         min 0.3 (if lvl \<le> 2 then 0.0 else 0.05 + (of_int lvl - 2) * 0.05),
       fastProbability =
         min 0.3 (if lvl = 1 then 0.0 else 0.05 + (of_int lvl - 1) * 0.05),
       bulletSpeedMultiplier = 1 + (of_int lvl - 1) * 0.1,
       spreadShotLevel = \<lfloor>of_int lvl / (3::real)\<rfloor>,
       fireRateMultiplier = 1 + (of_int lvl - 1) * 0.1,
       powerUpChance =
         (if lvl = 1 then 0.3 else max 0.1 (0.2 - (of_int lvl - 2) * 0.02)),
       divingEnemies = (lvl > 2),
       enemiesShootAngled = (lvl > 3),
       formationComplexity = min 5 \<lfloor>(of_int lvl - 1) / (2::real)\<rfloor> \<rparr>"

section \<open>The game component (Game.tsx)\<close>

subsection \<open>State\<close>

text \<open>
  \<^verbatim>\<open>gameState\<close> is the React state of the component, with the fields of the object
  literals of Game.tsx.  A state update \<^verbatim>\<open>setGameState(prev => ...)\<close> is applied to the
  \<open>gameState\<close> field of the world at once (updates are applied in the order they are
  queued, each to the result of the one before).  What a function or a timer callback
  \<^emph>\<open>reads\<close> as \<^verbatim>\<open>gameState\<close> is not that field but the value its closure captured at
  the render that created it; it is the argument \<open>gs\<close> of the functions below.
\<close>

record gameState =
  score :: int
  isGameOver :: bool
  isPaused :: bool
  health :: int
  victory :: bool
  level :: int

definition INITIAL_HEALTH :: int where "INITIAL_HEALTH = 3"
definition STAR_COUNT :: nat where "STAR_COUNT = 50"

definition initialGameState :: gameState where
  "initialGameState =
     \<lparr> score = 0, isGameOver = False, isPaused = False, health = INITIAL_HEALTH,
       victory = False, level = 1 \<rparr>"

text \<open>
  The callbacks the component hands to \<^verbatim>\<open>setTimeout\<close> and \<^verbatim>\<open>setInterval\<close>, each with the
  values its closure holds.
\<close>

datatype timerTask =
    EnableProgression
  | NextWave int int
  | CheckLastWave int
  | InitialSpawn int
  | NewGameSpawn gameState
  | ForceLevelProgress gameState
  | BeginNextLevel int
  | SpawnNextLevel int
  | HideLevelText
  | ObserverConfirm gameState
  | CheckEnemiesInterval gameState
  | GameOverFade
  | RemoveExplosion nat

record timer =
  handle :: nat
  delay :: int
  task :: timerTask
  repeats :: bool

text \<open>
  The world: the refs of the component (\<^verbatim>\<open>useRef\<close>), its React state (\<^verbatim>\<open>useState\<close>), the
  local variables of the main effect that the game loop closes over, and the browser
  (pending timers, the requested animation frame, local storage, the canvas, the random
  source and the clock).  Volumes, mute switches and the canvas scale only feed the
  audio manager and the touch handlers and are left out, as is the audio manager.
\<close>

record world =
  enemiesRef :: "enemy list"
  keysPressed :: "string set"
  waveTimeoutRef :: "nat option"
  currentWaveRef :: int
  difficultyConfigRef :: difficultyConfig
  gameJustStartedRef :: bool
  enableProgressionTimerRef :: "nat option"
  gameOverTimeoutRef :: "nat option"
  levelProgressTimeoutRef :: "nat option"
  prevDirectionRef :: "string option"
  gameState :: gameState
  isMobile :: bool
  isShooting :: bool
  isMovingLeft :: bool
  isMovingRight :: bool
  isMovingUp :: bool
  isMovingDown :: bool
  showLevelText :: bool
  gameOverFadeIn :: bool
  player :: player
  bullets :: "bullet list"
  powerUps :: "powerUp list"
  particles :: "particle list"
  explosions :: "explosionGIF list"
  stars :: "star list"
  lastShot :: int
  isGameOverSoundPlayed :: bool
  animationFrameId :: "nat option"
  timers :: "timer list"
  lastHandle :: nat
  lastFrame :: nat
  lastRef :: nat
  savedLevel :: "int option"
  canvasReady :: bool
  random :: randomSource
  dateNow :: int

subsection \<open>Browser primitives\<close>

text \<open>
  A timer handle is a positive integer; \<^verbatim>\<open>if (ref.current)\<close> on a ref holding a handle or
  \<^verbatim>\<open>null\<close> is \<open>truthy\<close>.  \<^verbatim>\<open>clearTimeout\<close> removes the pending timer with that handle, if
  there is one.
\<close>

definition truthy :: "nat option \<Rightarrow> bool" where
  "truthy r = (case r of None \<Rightarrow> False | Some h \<Rightarrow> h \<noteq> 0)"

definition setTimeout :: "timerTask \<Rightarrow> int \<Rightarrow> world \<Rightarrow> nat \<times> world" where
  "setTimeout t d w =
     (let h = Suc (lastHandle w)
      in (h, w\<lparr> timers := timers w @ [\<lparr> handle = h, delay = d, task = t, repeats = False \<rparr>],
                lastHandle := h \<rparr>))"

definition setInterval :: "timerTask \<Rightarrow> int \<Rightarrow> world \<Rightarrow> nat \<times> world" where
  "setInterval t d w =
     (let h = Suc (lastHandle w)
      in (h, w\<lparr> timers := timers w @ [\<lparr> handle = h, delay = d, task = t, repeats = True \<rparr>],
                lastHandle := h \<rparr>))"

definition clearTimeout :: "nat option \<Rightarrow> world \<Rightarrow> world" where
  "clearTimeout r w =
     (case r of None \<Rightarrow> w
      | Some h \<Rightarrow> w\<lparr> timers := filter (\<lambda>t. handle t \<noteq> h) (timers w) \<rparr>)"

definition saveGameProgress :: "int \<Rightarrow> world \<Rightarrow> world" where
  "saveGameProgress lvl w = w\<lparr> savedLevel := Some lvl \<rparr>"

definition clearGameProgress :: "world \<Rightarrow> world" where
  "clearGameProgress w = w\<lparr> savedLevel := None \<rparr>"

text \<open>\<^verbatim>\<open>xs.splice(i, 1)\<close>: removes the element at index \<open>i\<close>, nothing when there is none.\<close>

definition splice1 :: "nat \<Rightarrow> 'a list \<Rightarrow> 'a list" where
  "splice1 i xs = take i xs @ drop (Suc i) xs"

text \<open>\<^verbatim>\<open>xs.slice(0, n)\<close>: a negative \<open>n\<close> counts from the end.\<close>

definition slice0 :: "int \<Rightarrow> 'a list \<Rightarrow> 'a list" where
  "slice0 n xs = (if n < 0 then take (nat (int (length xs) + n)) xs else take (nat n) xs)"

text \<open>
  \<^verbatim>\<open>xs.forEach((item, index) => ...)\<close> on an array the callback may splice: the length is
  read once, at the start; index \<open>k\<close> is visited when the array still has an element
  there, and the callback gets the element that is at \<open>k\<close> at that moment.  So an
  element that moves down into a visited index is skipped.
\<close>

fun forEachFrom :: "('s \<Rightarrow> 'a list) \<Rightarrow> ('a \<Rightarrow> nat \<Rightarrow> 's \<Rightarrow> 's) \<Rightarrow> nat \<Rightarrow> nat \<Rightarrow> 's \<Rightarrow> 's" where
  "forEachFrom arr f k 0 s = s"
| "forEachFrom arr f k (Suc n) s =
     forEachFrom arr f (Suc k) n (if k < length (arr s) then f (arr s ! k) k s else s)"

definition forEach :: "('s \<Rightarrow> 'a list) \<Rightarrow> ('a \<Rightarrow> nat \<Rightarrow> 's \<Rightarrow> 's) \<Rightarrow> 's \<Rightarrow> 's" where
  "forEach arr f s = forEachFrom arr f 0 (length (arr s)) s"

subsection \<open>Explosions and particles\<close>

fun pushParticles :: "nat \<Rightarrow> real \<Rightarrow> real \<Rightarrow> string \<Rightarrow> world \<Rightarrow> world" where
  "pushParticles 0 px py col w = w"
| "pushParticles (Suc n) px py col w =
     (let (p, rs) = Particle_new px py col (random w)
      in pushParticles n px py col (w\<lparr> particles := particles w @ [p], random := rs \<rparr>))"

definition createExplosion :: "real \<Rightarrow> real \<Rightarrow> string \<Rightarrow> world \<Rightarrow> world" where
  "createExplosion px py col w = pushParticles 10 px py col w"

text \<open>
  \<^verbatim>\<open>explosions.push(ExplosionGIF.create...(x, y))\<close>: the constructor runs (taking the next
  object identity, reading the clock and the random source, arming its removal timer),
  then the object is pushed.
\<close>

definition pushExplosion ::
  "(nat \<Rightarrow> int \<Rightarrow> randomSource \<Rightarrow> explosionGIF \<times> randomSource) \<Rightarrow> world \<Rightarrow> world" where
  "pushExplosion mk w =
     (let r = Suc (lastRef w);
          (g, rs) = mk r (dateNow w) (random w);
          (h, w1) = setTimeout (RemoveExplosion r) (duration g + 50) (w\<lparr> lastRef := r, random := rs \<rparr>)
      in w1\<lparr> explosions := explosions w1 @ [g] \<rparr>)"

definition createGIFExplosion :: "real \<Rightarrow> real \<Rightarrow> ExplosionType \<Rightarrow> world \<Rightarrow> world" where
  "createGIFExplosion ex ey kind w =
     (case kind of
        PlayerExplosion \<Rightarrow> pushExplosion (\<lambda>r now. createForPlayer r now ex ey) w
      | TankEnemy \<Rightarrow> pushExplosion (\<lambda>r now. createForEnemy r now ex ey (Some TANK)) w
      | RegularEnemy \<Rightarrow> pushExplosion (\<lambda>r now. createForEnemy r now ex ey None) w)"

subsection \<open>Level completion: handleLevelComplete\<close>

text \<open>
  \<^verbatim>\<open>const handleLevelComplete = useCallback((ctx, nextLevel) => { ... }, [])\<close>.  The
  dependency list is empty, so the component keeps the function of its first render for
  good, and the \<^verbatim>\<open>gameState\<close> that function reads is the state of the first render: the
  initial state.  \<open>handleLevelComplete_closure gs\<close> is the body with \<open>gs\<close> for the
  captured state.  Every caller passes a canvas context it has tested, so \<^verbatim>\<open>ctx\<close> is not
  an argument and the callback's \<^verbatim>\<open>if (!contextRef) return\<close> never fires.
\<close>

definition handleLevelComplete_closure :: "gameState \<Rightarrow> int \<Rightarrow> world \<Rightarrow> world" where
  "handleLevelComplete_closure gs nextLevel w =
     (if gameJustStartedRef w then w
      else if victory gs then w
      else
        (let w1 = saveGameProgress nextLevel w;
             w2 = (if truthy (levelProgressTimeoutRef w1)
                   then (clearTimeout (levelProgressTimeoutRef w1) w1)\<lparr> levelProgressTimeoutRef := None \<rparr>
                   else w1);
             w3 = (if truthy (waveTimeoutRef w2)
                   then (clearTimeout (waveTimeoutRef w2) w2)\<lparr> waveTimeoutRef := None \<rparr>
                   else w2);
             w4 = w3\<lparr> showLevelText := True \<rparr>;
             w5 = w4\<lparr> gameState := (gameState w4)\<lparr> level := nextLevel, victory := True \<rparr> \<rparr>
         in snd (setTimeout (BeginNextLevel nextLevel) 2500 w5)))"

definition handleLevelComplete :: "int \<Rightarrow> world \<Rightarrow> world" where
  "handleLevelComplete = handleLevelComplete_closure initialGameState"

subsection \<open>Spawning: spawnEnemy, createFormation, spawnEnemyWave\<close>

text \<open>
  In \<open>spawnEnemy\<close> the x coordinate divides by \<^verbatim>\<open>totalEnemies - 1\<close>.  For one enemy
  JavaScript yields \<^verbatim>\<open>NaN\<close> or \<^verbatim>\<open>Infinity\<close> where HOL's division yields 0; every wave has
  at least five enemies (lemma \<open>baseEnemiesPerWave_ge_5\<close>), which is where the model's x
  coordinate is the program's.
\<close>

text \<open>The type roll of \<open>spawnEnemy\<close>: cumulative thresholds, the remainder is Basic.\<close>

definition rolledType :: "difficultyConfig \<Rightarrow> real \<Rightarrow> EnemyType" where
  "rolledType config rnd =
     (if rnd < shooterProbability config then SHOOTER
      else if rnd < shooterProbability config + tankProbability config then TANK
      else if rnd < shooterProbability config + tankProbability config + fastProbability config
      then FAST
      else BASIC)"

definition spawnEnemy :: "real \<Rightarrow> real \<Rightarrow> int \<Rightarrow> int \<Rightarrow> world \<Rightarrow> world" where
  "spawnEnemy col row lvl totalEnemies w =
     (let config = difficultyConfigRef w;
          (rnd, rs1) = Math_random (random w);
          t = rolledType config rnd;
          e0 = Enemy_new (80 + col * (GAME_WIDTH - 160) / (of_int totalEnemies - 1))
                         (60 + row * 60) t lvl;
          e1 = e0\<lparr> enemy.health := enemy.health e0 * enemyHealthMultiplier config,
                   speed := speed e0 * enemySpeedMultiplier config,
                   shootProbability := shootProbability e0 * fireRateMultiplier config,
                   dropPowerUpChance := powerUpChance config \<rparr>;
          (e2, rs2) =
            (if divingEnemies config
             then (let (r2, rs') = Math_random rs1
                   in (if r2 < 0.2 then e1\<lparr> diveAtPlayer := True \<rparr> else e1, rs'))
             else (e1, rs1))
      in w\<lparr> enemiesRef := enemiesRef w @ [e2], random := rs2 \<rparr>)"

datatype formation = Linear | VShape | Arc | Zigzag | Diamond | RandomFormation

definition formationTypes :: "formation list" where
  "formationTypes = [Linear, VShape, Arc, Zigzag, Diamond, RandomFormation]"

text \<open>The columns \<^verbatim>\<open>for (let col = 0; col < enemyCount; col++)\<close> visits.\<close>

definition columns :: "int \<Rightarrow> nat list" where
  "columns enemyCount = [0..<nat enemyCount]"

text \<open>
  One row of the diamond: \<^verbatim>\<open>for (let i = 0; i < rowWidth; i++)\<close>, with the running
  \<^verbatim>\<open>diamondIndex\<close> as part of the state.
\<close>

definition diamondCell ::
  "int \<Rightarrow> int \<Rightarrow> int \<Rightarrow> int \<Rightarrow> nat \<Rightarrow> nat \<Rightarrow> int \<times> world \<Rightarrow> int \<times> world" where
  "diamondCell enemyCount startRow lvl rowWidth row i st =
     (let (diamondIndex, w) = st
      in if diamondIndex < enemyCount
         then (let xOffset = (of_nat i - (of_int rowWidth - 1) / 2) * (1.5::real)
               in (diamondIndex + 1,
                   spawnEnemy (of_int enemyCount / 2 + xOffset)
                     (of_int startRow + of_nat row * 0.8) lvl enemyCount w))
         else st)"

definition diamondRow :: "int \<Rightarrow> int \<Rightarrow> int \<Rightarrow> int \<Rightarrow> nat \<Rightarrow> int \<times> world \<Rightarrow> int \<times> world" where
  "diamondRow enemyCount startRow lvl diamondSize row st =
     (let rowWidth = (if int row < diamondSize then int row + 1 else diamondSize * 2 - int row - 1)
      in fold (diamondCell enemyCount startRow lvl rowWidth row) (columns rowWidth) st)"

text \<open>
  \<open>createFormation\<close>; \<^term>\<open>None\<close> is a formation name that is \<^verbatim>\<open>undefined\<close>, which takes
  the \<^verbatim>\<open>default:\<close> branch, shared with \<^verbatim>\<open>'random'\<close>.  The closing
  \<^verbatim>\<open>setGameState(prev => ({...prev}))\<close> changes no field.
\<close>

definition createFormation :: "formation option \<Rightarrow> int \<Rightarrow> int \<Rightarrow> int \<Rightarrow> world \<Rightarrow> world" where
  "createFormation f enemyCount startRow lvl w =
     (case f of
        Some Linear \<Rightarrow>
          fold (\<lambda>col. spawnEnemy (of_nat col) (of_int startRow) lvl enemyCount)
            (columns enemyCount) w
      | Some VShape \<Rightarrow>
          fold (\<lambda>col. spawnEnemy (of_nat col)
                        (of_int startRow + \<bar>of_nat col - of_int enemyCount / 2\<bar> * 0.7)
                        lvl enemyCount)
            (columns enemyCount) w
      | Some Arc \<Rightarrow>
          fold (\<lambda>col. spawnEnemy (of_nat col)
                        (of_int startRow + sin ((of_nat col / (of_int enemyCount - 1)) * pi) * 2)
                        lvl enemyCount)
            (columns enemyCount) w
      | Some Zigzag \<Rightarrow>
          fold (\<lambda>col. spawnEnemy (of_nat col) (of_int startRow + of_nat (col mod 2) * 1.5)
                        lvl enemyCount)
            (columns enemyCount) w
      | Some Diamond \<Rightarrow>
          (let diamondSize = min 4 \<lfloor>of_int enemyCount / (3::real)\<rfloor>
           in snd (fold (diamondRow enemyCount startRow lvl diamondSize)
                     (columns (diamondSize * 2 - 1)) (0, w)))
      | _ \<Rightarrow>
          fold (\<lambda>col w'.
                  (let (r1, rs1) = Math_random (random w');
                       randomX = r1 * 0.8 + 0.1;
                       (r2, rs2) = Math_random rs1;
                       randomY = r2 * 1.5
                   in spawnEnemy (randomX * (of_int enemyCount - 1)) (of_int startRow + randomY)
                        lvl enemyCount (w'\<lparr> random := rs2 \<rparr>)))
            (columns enemyCount) w)"

definition availableFormations :: "int \<Rightarrow> formation list" where
  "availableFormations lvl =
     slice0 (min (int (length formationTypes)) (1 + \<lfloor>of_int lvl / (2::real)\<rfloor>)) formationTypes"

text \<open>
  \<^verbatim>\<open>availableFormations[Math.floor(Math.random() * availableFormations.length)]\<close>.
\<close>

definition randomFormation :: "int \<Rightarrow> world \<Rightarrow> formation option \<times> world" where
  "randomFormation lvl w =
     (let (r, rs) = Math_random (random w);
          av = availableFormations lvl
      in (at_floor av (r * of_nat (length av)), w\<lparr> random := rs \<rparr>))"

text \<open>The formation of a wave, chosen after \<open>currentWaveRef\<close> has been set to the wave.\<close>

definition chooseFormation :: "int \<Rightarrow> world \<Rightarrow> formation option \<times> world" where
  "chooseFormation lvl w =
     (if currentWaveRef w = 0
      then (if lvl = 1 then (Some Linear, w) else randomFormation lvl w)
      else randomFormation lvl w)"

text \<open>
  \<^verbatim>\<open>const spawnEnemyWave = useCallback((level, waveNumber, ctx) => { ... }, [])\<close>: again the
  function of the first render, reading the first render's \<^verbatim>\<open>gameState\<close>.  The function
  returned on the last wave (a clean-up no caller uses) is not modelled.
\<close>

definition spawnEnemyWave_closure :: "gameState \<Rightarrow> int \<Rightarrow> int \<Rightarrow> world \<Rightarrow> world" where
  "spawnEnemyWave_closure gs lvl waveNumber w =
     (let config = difficultyConfigRef w
      in if waveNumber \<ge> maxWaves config then
           (if length (enemiesRef w) = 0 \<and> \<not> victory gs \<and> \<not> gameJustStartedRef w
            then handleLevelComplete (lvl + 1) w
            else w)
         else
           (let w1 = w\<lparr> currentWaveRef := waveNumber \<rparr>;
                startRow = waveNumber;
                enemiesInThisWave = baseEnemiesPerWave config;
                (formationType, w2) = chooseFormation lvl w1;
                adjustedEnemyCount = (if waveNumber = 0 \<and> lvl = 1 then 5 else enemiesInThisWave);
                w3 = createFormation formationType adjustedEnemyCount startRow lvl w2
            in if waveNumber < maxWaves config - 1 then
                 (let w4 = (if truthy (waveTimeoutRef w3)
                            then (clearTimeout (waveTimeoutRef w3) w3)\<lparr> waveTimeoutRef := None \<rparr>
                            else w3);
                      (h, w5) = setTimeout (NextWave lvl waveNumber) (waveDelay config) w4
                  in w5\<lparr> waveTimeoutRef := Some h \<rparr>)
               else snd (setTimeout (CheckLastWave lvl) 2000 w3)))"

definition spawnEnemyWave :: "int \<Rightarrow> int \<Rightarrow> world \<Rightarrow> world" where
  "spawnEnemyWave = spawnEnemyWave_closure initialGameState"

subsection \<open>initializeLevel and startNewGame\<close>

definition initializeLevel :: "int \<Rightarrow> world \<Rightarrow> world" where
  "initializeLevel lvl w =
     (let w1 = (if truthy (waveTimeoutRef w)
                then (clearTimeout (waveTimeoutRef w) w)\<lparr> waveTimeoutRef := None \<rparr>
                else w);
          w2 = w1\<lparr> currentWaveRef := 0, enemiesRef := [],
                   difficultyConfigRef := getDifficultyConfig lvl \<rparr>;
          w3 = w2\<lparr> gameState := (gameState w2)\<lparr> victory := False \<rparr> \<rparr>
      in snd (setTimeout (InitialSpawn lvl) 0 w3))"

text \<open>
  \<open>startNewGame\<close> is the click handler of the "Try Again" button, created anew at each
  render; \<open>gs\<close> is the state of the render whose button was clicked, read by the
  callback it arms.
\<close>

definition startNewGame :: "gameState \<Rightarrow> world \<Rightarrow> world" where
  "startNewGame gs w =
     (let w1 = w\<lparr> gameJustStartedRef := True \<rparr>;
          w2 = clearGameProgress w1;
          w3 = (if truthy (waveTimeoutRef w2)
                then (clearTimeout (waveTimeoutRef w2) w2)\<lparr> waveTimeoutRef := None \<rparr>
                else w2);
          w4 = (if truthy (levelProgressTimeoutRef w3)
                then (clearTimeout (levelProgressTimeoutRef w3) w3)\<lparr> levelProgressTimeoutRef := None \<rparr>
                else w3);
          w5 = (if truthy (gameOverTimeoutRef w4)
                then (clearTimeout (gameOverTimeoutRef w4) w4)\<lparr> gameOverTimeoutRef := None \<rparr>
                else w4);
          w6 = w5\<lparr> enemiesRef := [], currentWaveRef := 0, prevDirectionRef := None,
                   difficultyConfigRef := getDifficultyConfig 1 \<rparr>;
          w7 = w6\<lparr> gameOverFadeIn := False, showLevelText := False, isShooting := False,
                   isMovingLeft := False, isMovingRight := False, isMovingUp := False,
                   isMovingDown := False \<rparr>;
          w8 = w7\<lparr> gameState := \<lparr> score = 0, isGameOver = False, isPaused = False,
                                  health = INITIAL_HEALTH, victory = False, level = 1 \<rparr> \<rparr>
      in snd (setTimeout (NewGameSpawn gs) 100 w8))"

subsection \<open>Completion checks\<close>

text \<open>
  \<open>checkForLevelCompletion\<close> is defined inside the game loop and reads the \<^verbatim>\<open>gameState\<close>
  the loop's closure captured (\<open>gs\<close>).  \<open>canvasReady\<close> stands for
  \<^verbatim>\<open>canvasRef.current\<close> and its 2d context both being there.
\<close>

definition checkForLevelCompletion :: "gameState \<Rightarrow> world \<Rightarrow> world" where
  "checkForLevelCompletion gs w =
     (if gameJustStartedRef w then w
      else
        (let isLastWaveComplete = (currentWaveRef w \<ge> maxWaves (difficultyConfigRef w) - 1)
         in if length (enemiesRef w) = 0 \<and> \<not> isPaused gs \<and> \<not> isGameOver gs \<and> \<not> victory gs
               \<and> \<not> truthy (waveTimeoutRef w) \<and> isLastWaveComplete \<and> \<not> gameJustStartedRef w
               \<and> canvasReady w
            then handleLevelComplete (level gs + 1) w
            else if length (enemiesRef w) = 0 \<and> \<not> isPaused gs \<and> \<not> isGameOver gs
                    \<and> \<not> victory gs \<and> \<not> gameJustStartedRef w
            then
              (if isLastWaveComplete then
                 (if \<not> victory gs \<and> canvasReady w
                  then handleLevelComplete (level gs + 1) w
                  else w)
               else if truthy (waveTimeoutRef w) then w
               else if \<not> truthy (levelProgressTimeoutRef w) \<and> \<not> gameJustStartedRef w then
                 (let (h, w1) = setTimeout (ForceLevelProgress gs) 1000 w
                  in w1\<lparr> levelProgressTimeoutRef := Some h \<rparr>)
               else w)
            else w))"

text \<open>The 500 ms observer (\<^verbatim>\<open>checkEnemiesInterval\<close>) and the check it arms.\<close>

definition checkEnemiesInterval :: "gameState \<Rightarrow> world \<Rightarrow> world" where
  "checkEnemiesInterval gs w =
     (if isPaused gs \<or> isGameOver gs \<or> victory gs \<or> gameJustStartedRef w then w
      else if length (enemiesRef w) = 0 then
        (let isLastWave = (currentWaveRef w \<ge> maxWaves (difficultyConfigRef w) - 1);
             hasActiveWaveTimeout = truthy (waveTimeoutRef w)
         in if (isLastWave \<or> \<not> hasActiveWaveTimeout) \<and> \<not> victory gs
               \<and> \<not> truthy (levelProgressTimeoutRef w) \<and> \<not> gameJustStartedRef w
            then (if canvasReady w then snd (setTimeout (ObserverConfirm gs) 100 w) else w)
            else w)
      else w)"

definition observerConfirm :: "gameState \<Rightarrow> world \<Rightarrow> world" where
  "observerConfirm gs w =
     (if length (enemiesRef w) = 0 \<and> \<not> victory gs \<and> \<not> isPaused gs \<and> \<not> isGameOver gs
         \<and> \<not> gameJustStartedRef w
      then handleLevelComplete (level gs + 1) w
      else w)"

text \<open>The timer \<open>spawnEnemyWave\<close> arms after the last wave (first render's closure).\<close>

definition checkLastWave :: "int \<Rightarrow> world \<Rightarrow> world" where
  "checkLastWave lvl w =
     (if length (enemiesRef w) = 0 \<and> \<not> victory initialGameState
      then handleLevelComplete (lvl + 1) w
      else w)"

text \<open>The one-second timer \<open>checkForLevelCompletion\<close> arms.\<close>

definition forceLevelProgress :: "gameState \<Rightarrow> world \<Rightarrow> world" where
  "forceLevelProgress gs w =
     (let w1 = (if \<not> victory gs \<and> \<not> gameJustStartedRef w
                then (if canvasReady w then handleLevelComplete (level gs + 1) w else w)
                else w)
      in w1\<lparr> levelProgressTimeoutRef := None \<rparr>)"

subsection \<open>Timer callbacks\<close>

text \<open>
  What each armed callback does when the browser runs it.  The 2.5 s callback of
  \<open>handleLevelComplete\<close> arms the spawn of the next level (100 ms) and the hiding of the
  level text (150 ms).
\<close>

definition beginNextLevel :: "int \<Rightarrow> world \<Rightarrow> world" where
  "beginNextLevel nextLevel w =
     (let w1 = w\<lparr> currentWaveRef := 0, enemiesRef := [],
                  difficultyConfigRef := getDifficultyConfig nextLevel \<rparr>;
          w2 = snd (setTimeout (SpawnNextLevel nextLevel) 100 w1)
      in snd (setTimeout HideLevelText 150 w2))"

definition spawnNextLevel :: "int \<Rightarrow> world \<Rightarrow> world" where
  "spawnNextLevel nextLevel w =
     (let w1 = spawnEnemyWave nextLevel 0 w
      in w1\<lparr> gameState := (gameState w1)\<lparr> victory := False \<rparr> \<rparr>)"

definition newGameSpawn :: "gameState \<Rightarrow> world \<Rightarrow> world" where
  "newGameSpawn gs w =
     (let w1 = (if level gs \<noteq> 1 then w\<lparr> gameState := (gameState w)\<lparr> level := 1 \<rparr> \<rparr> else w)
      in if canvasReady w1
         then (let w2 = w1\<lparr> currentWaveRef := 0 \<rparr>;
                   w3 = spawnEnemyWave 1 0 w2
               in snd (setTimeout EnableProgression 3000 w3))
         else w1)"

definition removeExplosion :: "nat \<Rightarrow> world \<Rightarrow> world" where
  "removeExplosion r w =
     w\<lparr> explosions := map (\<lambda>g. if ref g = r then ExplosionGIF_remove g else g) (explosions w) \<rparr>"

fun runTask :: "timerTask \<Rightarrow> world \<Rightarrow> world" where
  "runTask EnableProgression w = w\<lparr> gameJustStartedRef := False \<rparr>"
| "runTask (NextWave lvl waveNumber) w = spawnEnemyWave lvl (waveNumber + 1) w"
| "runTask (CheckLastWave lvl) w = checkLastWave lvl w"
| "runTask (InitialSpawn lvl) w = spawnEnemyWave lvl 0 w"
| "runTask (NewGameSpawn gs) w = newGameSpawn gs w"
| "runTask (ForceLevelProgress gs) w = forceLevelProgress gs w"
| "runTask (BeginNextLevel nextLevel) w = beginNextLevel nextLevel w"
| "runTask (SpawnNextLevel nextLevel) w = spawnNextLevel nextLevel w"
| "runTask HideLevelText w = w\<lparr> showLevelText := False \<rparr>"
| "runTask (ObserverConfirm gs) w = observerConfirm gs w"
| "runTask (CheckEnemiesInterval gs) w = checkEnemiesInterval gs w"
| "runTask GameOverFade w = w\<lparr> gameOverFadeIn := True \<rparr>"
| "runTask (RemoveExplosion r) w = removeExplosion r w"

text \<open>
  The browser runs a pending timer: a one-shot timer leaves the pending list, an
  interval stays; then the callback runs.  Which timer is due is the browser's choice
  (the clock is not part of the model), so \<open>fire h\<close> runs the timer with handle \<open>h\<close>.
\<close>

definition fire :: "nat \<Rightarrow> world \<Rightarrow> world" where
  "fire h w =
     (case filter (\<lambda>t. handle t = h) (timers w) of
        [] \<Rightarrow> w
      | t # _ \<Rightarrow>
          runTask (task t)
            (if repeats t then w else w\<lparr> timers := filter (\<lambda>t. handle t \<noteq> h) (timers w) \<rparr>))"

subsection \<open>The game loop\<close>

definition shootIfReady :: "world \<Rightarrow> world" where
  "shootIfReady w =
     (if dateNow w - world.lastShot w > fireRate (player w)
      then w\<lparr> bullets := bullets w @ Player_shoot (player w), world.lastShot := dateNow w \<rparr>
      else w)"

definition handlePlayerMovement :: "world \<Rightarrow> world" where
  "handlePlayerMovement w =
     (if isMobile w then
        (let w1 = (if isMovingLeft w then w\<lparr> player := moveLeft (player w) \<rparr> else w);
             w2 = (if isMovingRight w1 then w1\<lparr> player := moveRight (player w1) \<rparr> else w1);
             w3 = (if isMovingUp w2 then w2\<lparr> player := moveUp (player w2) \<rparr> else w2);
             w4 = (if isMovingDown w3 then w3\<lparr> player := moveDown (player w3) \<rparr> else w3)
         in if isShooting w4 then shootIfReady w4 else w4)
      else
        (let ks = keysPressed w;
             w1 = (if ''ArrowLeft'' \<in> ks \<or> ''KeyA'' \<in> ks
                   then w\<lparr> player := moveLeft (player w) \<rparr> else w);
             w2 = (if ''ArrowRight'' \<in> ks \<or> ''KeyD'' \<in> ks
                   then w1\<lparr> player := moveRight (player w1) \<rparr> else w1);
             w3 = (if ''ArrowUp'' \<in> ks \<or> ''KeyW'' \<in> ks
                   then w2\<lparr> player := moveUp (player w2) \<rparr> else w2);
             w4 = (if ''ArrowDown'' \<in> ks \<or> ''KeyS'' \<in> ks
                   then w3\<lparr> player := moveDown (player w3) \<rparr> else w3)
         in if ''Space'' \<in> ks then shootIfReady w4 else w4))"

definition starCallback :: "star \<Rightarrow> nat \<Rightarrow> world \<Rightarrow> world" where
  "starCallback st k w =
     (let (st1, rs) = Star_update st (random w)
      in w\<lparr> stars := (stars w)[k := st1], random := rs \<rparr>)"

definition enemyCallback :: "enemy \<Rightarrow> nat \<Rightarrow> world \<Rightarrow> world" where
  "enemyCallback e k w =
     (let (e1, rs1) = Enemy_update (dateNow w) e (random w);
          e2 = Enemy_draw e1;
          (can, e3, rs2) = canShoot (dateNow w) e2 rs1;
          w1 = w\<lparr> enemiesRef := (enemiesRef w)[k := e3], random := rs2 \<rparr>
      in if can
         then (let (b, rs3) = Enemy_shoot e3 (random w1)
               in w1\<lparr> bullets := bullets w1 @ [b], random := rs3 \<rparr>)
         else w1)"

text \<open>
  The power-up pass of the loop: move the power-up, drop it below the field, or hand it
  to the player on contact, remove it and burst ten particles.
\<close>

definition powerUpCallback :: "powerUp \<Rightarrow> nat \<Rightarrow> world \<Rightarrow> world" where
  "powerUpCallback pu0 index w =
     (let pu = PowerUp_update pu0;
          w1 = w\<lparr> powerUps := (powerUps w)[index := pu] \<rparr>
      in if y pu > GAME_HEIGHT then w1\<lparr> powerUps := splice1 index (powerUps w1) \<rparr>
         else if PowerUp_checkCollision pu (player w1) then
           (let w2 = w1\<lparr> player := activatePowerUp (powerUp.type pu) (dateNow w1) (player w1) \<rparr>;
                w3 = w2\<lparr> powerUps := splice1 index (powerUps w2) \<rparr>
            in createExplosion (x pu) (y pu) (powerUp.color pu) w3)
         else w1)"

text \<open>\<^verbatim>\<open>for (let i = explosions.length - 1; i >= 0; i--)\<close>, called with the length.\<close>

fun explosionsLoop :: "nat \<Rightarrow> world \<Rightarrow> world" where
  "explosionsLoop 0 w = w"
| "explosionsLoop (Suc i) w =
     (let g = ExplosionGIF_update (dateNow w) (explosions w ! i);
          w1 = w\<lparr> explosions := (explosions w)[i := g] \<rparr>
      in explosionsLoop i
           (if \<not> isActive g then w1\<lparr> explosions := splice1 i (explosions w1) \<rparr> else w1))"

text \<open>
  \<^verbatim>\<open>particles.indexOf(particle)\<close> finds the object by identity; each particle is pushed
  once, so that is the index the callback is at.
\<close>

definition particleCallback :: "particle \<Rightarrow> nat \<Rightarrow> world \<Rightarrow> world" where
  "particleCallback p0 k w =
     (let p = Particle_update p0;
          w1 = w\<lparr> particles := (particles w)[k := p] \<rparr>
      in if life p \<le> 0 then w1\<lparr> particles := splice1 k (particles w1) \<rparr> else w1)"

definition checkBulletCollision :: "bullet \<Rightarrow> bullet \<Rightarrow> bool" where
  "checkBulletCollision bullet1 bullet2 \<longleftrightarrow>
     (let collisionMargin = 5
      in x bullet1 - collisionMargin < x bullet2 + width bullet2 + collisionMargin \<and>
         x bullet1 + width bullet1 + collisionMargin > x bullet2 - collisionMargin \<and>
         y bullet1 - collisionMargin < y bullet2 + height bullet2 + collisionMargin \<and>
         y bullet1 + height bullet1 + collisionMargin > y bullet2 - collisionMargin)"

text \<open>
  The inner loop of a player bullet over the bullets,
  \<^verbatim>\<open>for (let enemyBulletIndex = bullets.length - 1; enemyBulletIndex >= 0; enemyBulletIndex--)\<close>,
  called with the length.  \<^term>\<open>Some\<close> is the world after an interception, where the
  callback returns; \<^term>\<open>None\<close> is the loop running to its end.
\<close>

fun bulletsLoop :: "bullet \<Rightarrow> nat \<Rightarrow> nat \<Rightarrow> world \<Rightarrow> world option" where
  "bulletsLoop playerBullet playerBulletIndex 0 w = None"
| "bulletsLoop playerBullet playerBulletIndex (Suc enemyBulletIndex) w =
     (let enemyBullet = bullets w ! enemyBulletIndex
      in if \<not> isEnemyBullet playerBullet \<and> isEnemyBullet enemyBullet
            \<and> checkBulletCollision playerBullet enemyBullet
         then
           (let bulletColor = (if enemyType enemyBullet = Some BASIC then ''#FF8C00'' else ''#00ff00'');
                collisionX = (x playerBullet + x enemyBullet) / 2;
                collisionY = (y playerBullet + y enemyBullet) / 2;
                w1 = pushParticles 15 collisionX collisionY bulletColor w;
                w2 = w1\<lparr> bullets := splice1 enemyBulletIndex (bullets w1) \<rparr>;
                w3 = w2\<lparr> bullets := splice1 playerBulletIndex (bullets w2) \<rparr>
            in Some (w3\<lparr> gameState := (gameState w3)\<lparr> score := score (gameState w3) + 10 \<rparr> \<rparr>))
         else bulletsLoop playerBullet playerBulletIndex enemyBulletIndex w)"

text \<open>
  The loop of a player bullet over the enemies,
  \<^verbatim>\<open>for (let i = enemiesRef.current.length - 1; i >= 0; i--)\<close>, called with the length; it
  breaks when an enemy is destroyed.
\<close>

fun enemiesLoop :: "bullet \<Rightarrow> nat \<Rightarrow> nat \<Rightarrow> world \<Rightarrow> world" where
  "enemiesLoop playerBullet playerBulletIndex 0 w = w"
| "enemiesLoop playerBullet playerBulletIndex (Suc i) w =
     (let e = enemiesRef w ! i
      in if Bullet_checkCollision playerBullet e then
           (let w1 = w\<lparr> bullets := splice1 playerBulletIndex (bullets w) \<rparr>;
                w2 = createExplosion (x e + width e / 2) (y e + height e / 2) (enemy.color e) w1;
                (e', destroyed) = hit e;
                w3 = w2\<lparr> enemiesRef := (enemiesRef w2)[i := e'] \<rparr>
            in if destroyed then
                 (let w4 = (if enemy.type e' = TANK
                            then createGIFExplosion (x e' + width e' / 2) (y e' + height e' / 2)
                                   TankEnemy w3
                            else createGIFExplosion (x e' + width e' / 2) (y e' + height e' / 2)
                                   RegularEnemy w3);
                      (drop, rs) = dropPowerUp e' (random w4);
                      w5 = (case drop of
                              Some pu \<Rightarrow> w4\<lparr> powerUps := powerUps w4 @ [pu], random := rs \<rparr>
                            | None \<Rightarrow> w4\<lparr> random := rs \<rparr>);
                      w6 = w5\<lparr> enemiesRef := splice1 i (enemiesRef w5) \<rparr>
                  in w6\<lparr> gameState := (gameState w6)\<lparr> score := score (gameState w6) + 100 \<rparr> \<rparr>)
               else enemiesLoop playerBullet playerBulletIndex i w3)
         else enemiesLoop playerBullet playerBulletIndex i w)"

text \<open>
  The callback of \<^verbatim>\<open>bullets.forEach((playerBullet, playerBulletIndex) => ...)\<close>.  \<open>gs\<close> is
  the \<^verbatim>\<open>gameState\<close> the loop's closure captured: \<^verbatim>\<open>gameState.health - 1\<close> reads it, the
  updates \<^verbatim>\<open>setGameState(prev => ...)\<close> work on the current state.
\<close>

definition bulletCallback :: "gameState \<Rightarrow> bullet \<Rightarrow> nat \<Rightarrow> world \<Rightarrow> world" where
  "bulletCallback gs playerBullet0 playerBulletIndex w =
     (let playerBullet = Bullet_update playerBullet0;
          w1 = w\<lparr> bullets := (bullets w)[playerBulletIndex := playerBullet] \<rparr>
      in if y playerBullet < 0 \<or> y playerBullet > GAME_HEIGHT
         then w1\<lparr> bullets := splice1 playerBulletIndex (bullets w1) \<rparr>
         else if isEnemyBullet playerBullet then
           (if \<not> invulnerable (player w1) \<and> \<not> hasShield (player w1)
               \<and> Bullet_checkCollision playerBullet (player w1)
            then
              (let w2 = w1\<lparr> bullets := splice1 playerBulletIndex (bullets w1) \<rparr>;
                   w3 = createExplosion (x (player w2) + width (player w2) / 2) (y (player w2))
                          ''#ff0000'' w2;
                   w4 = w3\<lparr> player := makeInvulnerable (dateNow w3) (player w3) \<rparr>;
                   newHealth = health gs - 1
               in if newHealth \<le> 0 then
                    (let w5 = createGIFExplosion (x (player w4) + width (player w4) / 2)
                                (y (player w4) + height (player w4) / 2) PlayerExplosion w4
                     in w5\<lparr> gameState := (gameState w5)\<lparr> health := health (gameState w5) - 1,
                                                        isGameOver := True \<rparr> \<rparr>)
                  else
                    w4\<lparr> gameState := (gameState w4)\<lparr> health := health (gameState w4) - 1,
                                                    isGameOver := (health (gameState w4) \<le> 1) \<rparr> \<rparr>)
            else w1)
         else
           (case bulletsLoop playerBullet playerBulletIndex (length (bullets w1)) w1 of
              Some w' \<Rightarrow> w'
            | None \<Rightarrow> enemiesLoop playerBullet playerBulletIndex (length (enemiesRef w1)) w1))"

text \<open>
  One call of \<open>gameLoop\<close>.  Drawing (the canvas, the mobile controls) and the audio
  manager are not modelled; a new animation frame is requested only at the end of a
  full pass, so a paused or finished game requests none.
\<close>

definition requestAnimationFrame :: "world \<Rightarrow> world" where
  "requestAnimationFrame w =
     w\<lparr> animationFrameId := Some (Suc (lastFrame w)), lastFrame := Suc (lastFrame w) \<rparr>"

definition gameLoop :: "gameState \<Rightarrow> world \<Rightarrow> world" where
  "gameLoop gs w =
     (if isPaused gs then w
      else if isGameOver gs then
        (if \<not> isGameOverSoundPlayed w then w\<lparr> isGameOverSoundPlayed := True \<rparr> else w)
      else
        (let w1 = handlePlayerMovement w;
             w2 = forEach stars starCallback w1;
             w3 = w2\<lparr> player := Player_update (dateNow w2) (player w2) \<rparr>;
             w4 = checkForLevelCompletion gs w3;
             w5 = forEach enemiesRef enemyCallback w4;
             w6 = forEach powerUps powerUpCallback w5;
             w7 = explosionsLoop (length (explosions w6)) w6;
             w8 = forEach particles particleCallback w7;
             w9 = forEach bullets (bulletCallback gs) w8
         in requestAnimationFrame w9))"

subsection \<open>Effects\<close>

text \<open>
  The main effect runs at mount and again whenever the level, the pause flag, the
  game-over flag or a touch-control flag changes; \<open>gs\<close> is the state of the render it
  runs for, which the new game loop captures.  It renews the player and the bullet,
  power-up, particle, explosion and star arrays.
\<close>

fun pushStars :: "nat \<Rightarrow> world \<Rightarrow> world" where
  "pushStars 0 w = w"
| "pushStars (Suc n) w =
     (let (r1, rs1) = Math_random (random w);
          (r2, rs2) = Math_random rs1;
          (st, rs3) = Star_new (r1 * GAME_WIDTH) (r2 * GAME_HEIGHT) rs2
      in pushStars n (w\<lparr> stars := stars w @ [st], random := rs3 \<rparr>))"

definition mainEffect :: "gameState \<Rightarrow> world \<Rightarrow> world" where
  "mainEffect gs w =
     (if \<not> canvasReady w then w
      else
        (let w1 = w\<lparr> player := Player_new (GAME_WIDTH / 2) (GAME_HEIGHT - 50),
                      bullets := [], powerUps := [], particles := [], explosions := [],
                      stars := [], world.lastShot := 0, isGameOverSoundPlayed := False,
                      animationFrameId := None \<rparr>;
             w2 = pushStars STAR_COUNT w1;
             w3 = (if truthy (waveTimeoutRef w2)
                   then (clearTimeout (waveTimeoutRef w2) w2)\<lparr> waveTimeoutRef := None \<rparr>
                   else w2);
             w4 = w3\<lparr> enemiesRef := [], gameJustStartedRef := True \<rparr>;
             w5 = initializeLevel (level gs) w4;
             (h, w6) = setTimeout EnableProgression 3000 w5;
             w7 = w6\<lparr> enableProgressionTimerRef := Some h \<rparr>;
             w8 = gameLoop gs w7
         in initializeLevel (level gs) w8))"

definition mainEffectCleanup :: "world \<Rightarrow> world" where
  "mainEffectCleanup w =
     (let w1 = w\<lparr> animationFrameId := None \<rparr>;
          w2 = (if truthy (enableProgressionTimerRef w1)
                then (clearTimeout (enableProgressionTimerRef w1) w1)\<lparr> enableProgressionTimerRef := None \<rparr>
                else w1);
          w3 = (if truthy (waveTimeoutRef w2)
                then (clearTimeout (waveTimeoutRef w2) w2)\<lparr> waveTimeoutRef := None \<rparr>
                else w2)
      in if truthy (levelProgressTimeoutRef w3)
         then (clearTimeout (levelProgressTimeoutRef w3) w3)\<lparr> levelProgressTimeoutRef := None \<rparr>
         else w3)"

text \<open>
  The other effects.  At mount the component sets the grace flag and arms the three
  second timer that lifts it; on a change of level it recomputes the difficulty
  configuration; the observer effect arms the 500 ms interval (its clean-up clears it);
  the game-over effect arms the fade of the game-over screen.  The keyboard and touch
  handlers only fill \<open>keysPressed\<close>, flip \<open>isPaused\<close> and set the movement flags, which the
  world holds as given.
\<close>

definition mountEffect :: "world \<Rightarrow> world" where
  "mountEffect w =
     (let w1 = clearGameProgress w;
          w2 = (if level (gameState w1) \<noteq> 1
                then w1\<lparr> gameState := (gameState w1)\<lparr> level := 1 \<rparr> \<rparr> else w1);
          w3 = w2\<lparr> gameJustStartedRef := True \<rparr>;
          (h, w4) = setTimeout EnableProgression 3000 w3
      in w4\<lparr> enableProgressionTimerRef := Some h \<rparr>)"

definition difficultyEffect :: "gameState \<Rightarrow> world \<Rightarrow> world" where
  "difficultyEffect gs w = w\<lparr> difficultyConfigRef := getDifficultyConfig (level gs) \<rparr>"

definition observerEffect :: "gameState \<Rightarrow> world \<Rightarrow> nat \<times> world" where
  "observerEffect gs w = setInterval (CheckEnemiesInterval gs) 500 w"

definition observerEffectCleanup :: "nat \<Rightarrow> world \<Rightarrow> world" where
  "observerEffectCleanup h w = clearTimeout (Some h) w"

definition gameOverEffect :: "gameState \<Rightarrow> world \<Rightarrow> world" where
  "gameOverEffect gs w =
     (if isGameOver gs then
        (let w1 = (if gameOverTimeoutRef w \<noteq> None then clearTimeout (gameOverTimeoutRef w) w else w);
             (h, w2) = setTimeout GameOverFade 2000 w1
         in w2\<lparr> gameOverTimeoutRef := Some h \<rparr>)
      else w\<lparr> gameOverFadeIn := False \<rparr>)"

subsection \<open>The component before its first effect\<close>

text \<open>
  The refs and state as \<^verbatim>\<open>useRef\<close> and \<^verbatim>\<open>useState\<close> initialise them, with no timer
  pending.  The variables of the main effect do not exist before it runs; they hold
  here what the effect gives them first.
\<close>

definition initialWorld :: "randomSource \<Rightarrow> int \<Rightarrow> world" where
  "initialWorld rs t =
     \<lparr> enemiesRef = [], keysPressed = {}, waveTimeoutRef = None, currentWaveRef = 0,
       difficultyConfigRef = getDifficultyConfig 1, gameJustStartedRef = True,
       enableProgressionTimerRef = None, gameOverTimeoutRef = None,
       levelProgressTimeoutRef = None, prevDirectionRef = None,
       gameState = initialGameState, isMobile = False, isShooting = False,
       isMovingLeft = False, isMovingRight = False, isMovingUp = False,
       isMovingDown = False, showLevelText = False, gameOverFadeIn = False,
       player = Player_new (GAME_WIDTH / 2) (GAME_HEIGHT - 50),
       bullets = [], powerUps = [], particles = [], explosions = [], stars = [],
       world.lastShot = 0, isGameOverSoundPlayed = False, animationFrameId = None,
       timers = [], lastHandle = 0, lastFrame = 0, lastRef = 0, savedLevel = None,
       canvasReady = True, random = rs, dateNow = t \<rparr>"

text \<open>A random source that returns the same value at every call.\<close>

definition always :: "real \<Rightarrow> randomSource" where
  "always r = \<lparr> outcomes = (\<lambda>_. r), drawn = 0 \<rparr>"

text \<open>The enemy after \<open>n\<close> calls of \<^verbatim>\<open>hit()\<close>.\<close>

definition hitTimes :: "nat \<Rightarrow> enemy \<Rightarrow> enemy" where
  "hitTimes n e = ((\<lambda>e'. fst (hit e')) ^^ n) e"

text \<open>The enemy a call of \<open>spawnEnemy\<close> pushes.\<close>

definition spawned :: "real \<Rightarrow> real \<Rightarrow> int \<Rightarrow> int \<Rightarrow> world \<Rightarrow> enemy" where
  "spawned col row lvl cnt w = last (enemiesRef (spawnEnemy col row lvl cnt w))"

text \<open>A world at level 3 whose random source always returns 0.2.\<close>

definition level3World :: world where
  "level3World = (initialWorld (always 0.2) 0)\<lparr> difficultyConfigRef := getDifficultyConfig 3 \<rparr>"

subsection \<open>Worlds and relations used in the statements\<close>

text \<open>
  Level 2 with its second and last wave out, every enemy destroyed, the grace window
  over and no level transition under way.
\<close>

definition level2Cleared :: world where
  "level2Cleared =
     (initialWorld (always 0.5) 0)
       \<lparr> gameJustStartedRef := False, currentWaveRef := 1,
         difficultyConfigRef := getDifficultyConfig 2,
         gameState := initialGameState\<lparr> level := 2 \<rparr> \<rparr>"

text \<open>
  The same world once the last-wave timer has completed the level, with the player then
  losing the last life: the 2.5 s callback of the transition is still pending.
\<close>

definition gameOverDuringAdvance :: world where
  "gameOverDuringAdvance =
     (let w = checkLastWave 2 level2Cleared
      in w\<lparr> gameState := (gameState w)\<lparr> health := 0, isGameOver := True \<rparr> \<rparr>)"

text \<open>
  \<open>powerUpPassOnly w w'\<close>: \<open>w'\<close> is \<open>w\<close> but for the power-up list, the particles, the
  random source and the player.
\<close>

definition powerUpPassOnly :: "world \<Rightarrow> world \<Rightarrow> bool" where
  "powerUpPassOnly w w' \<longleftrightarrow>
     (\<exists>pu pa rs pl. w' = w\<lparr> powerUps := pu, particles := pa, random := rs, player := pl \<rparr>)"

text \<open>
  A world past the grace window holding the given bullets; an enemy bullet and a player
  bullet that meet in the coming frame.
\<close>

definition interceptWorld :: "bullet list \<Rightarrow> world" where
  "interceptWorld bs = (initialWorld (always 0.5) 0)\<lparr> gameJustStartedRef := False, bullets := bs \<rparr>"

definition enemyShot :: bullet where
  "enemyShot = Bullet_new 100 100 True 0 (Some 2) (Some BASIC)"

definition playerShot :: bullet where
  "playerShot = Bullet_new 100 120 False 0 None None"

text \<open>A frame in which a Shield power-up is about to reach the player.\<close>

definition shieldPickup :: world where
  "shieldPickup =
     (initialWorld (always 0.5) 0)
       \<lparr> gameJustStartedRef := False,
         powerUps := [PowerUp_new 425 558 (Some SHIELD)] \<rparr>"



section \<open>Theorems\<close>

subsection \<open>Difficulty configuration\<close>

lemma min_add_mono:
  fixes a b c k :: "'a::linordered_idom"
  assumes "a \<le> b"
  shows "min c (k + a) \<le> min c (k + b)"
  using assms by (simp add: min_le_iff_disj)

lemma floor_level_mono:
  fixes c :: real
  assumes "l \<le> m" and "0 < c"
  shows "\<lfloor>of_int l / c\<rfloor> \<le> \<lfloor>of_int m / c\<rfloor>"
  using assms by (intro floor_mono divide_right_mono) simp_all

lemma floor_level_times_mono:
  fixes c :: real
  assumes "l \<le> m" and "0 \<le> c"
  shows "\<lfloor>of_int l * c\<rfloor> \<le> \<lfloor>of_int m * c\<rfloor>"
  using assms by (intro floor_mono mult_right_mono) simp_all

lemma floor_level_12_ge_2:
  assumes "2 \<le> (m::int)"
  shows "2 \<le> \<lfloor>of_int m * (1.2::real)\<rfloor>"
proof -
  have "\<lfloor>of_int (2::int) * (1.2::real)\<rfloor> \<le> \<lfloor>of_int m * (1.2::real)\<rfloor>"
    using assms by (intro floor_level_times_mono) simp_all
  moreover have "\<lfloor>of_int (2::int) * (1.2::real)\<rfloor> = 2" by simp
  ultimately show ?thesis by linarith
qed

lemma baseEnemiesPerWave_mono:
  assumes "1 \<le> l" and "l \<le> m"
  shows "baseEnemiesPerWave (getDifficultyConfig l) \<le> baseEnemiesPerWave (getDifficultyConfig m)"
proof -
  consider "m = 1" | "l = 1" "2 \<le> m" | "2 \<le> l" using assms by linarith
  then show ?thesis
  proof cases
    case 1
    with assms have "l = 1" by simp
    with 1 show ?thesis by simp
  next
    case 2
    have "(5::int) \<le> min 15 (5 + \<lfloor>of_int m * (1.2::real)\<rfloor>)"
      using floor_level_12_ge_2 [OF 2(2)] by simp
    with 2 show ?thesis
      by (simp only: getDifficultyConfig_def difficultyConfig.select_convs) simp
  next
    case 3
    have "min (15::int) (5 + \<lfloor>of_int l * (1.2::real)\<rfloor>) \<le> min 15 (5 + \<lfloor>of_int m * (1.2::real)\<rfloor>)"
      using assms(2) by (intro min_add_mono floor_level_times_mono) simp_all
    moreover have "l \<noteq> 1" "m \<noteq> 1" using 3 assms by simp_all
    ultimately show ?thesis
      by (simp only: getDifficultyConfig_def difficultyConfig.select_convs if_False)
  qed
qed

lemma maxWaves_mono:
  assumes "l \<le> m"
  shows "maxWaves (getDifficultyConfig l) \<le> maxWaves (getDifficultyConfig m)"
proof -
  have "min (6::int) (1 + \<lfloor>of_int l / (1.5::real)\<rfloor>) \<le> min 6 (1 + \<lfloor>of_int m / (1.5::real)\<rfloor>)"
    using assms by (intro min_add_mono floor_level_mono) simp_all
  then show ?thesis
    by (simp only: getDifficultyConfig_def difficultyConfig.select_convs)
qed

lemma enemyHealthMultiplier_mono:
  assumes "l \<le> m"
  shows "enemyHealthMultiplier (getDifficultyConfig l) \<le> enemyHealthMultiplier (getDifficultyConfig m)"
proof -
  have "min (3::int) (1 + \<lfloor>of_int l / (3::real)\<rfloor>) \<le> min 3 (1 + \<lfloor>of_int m / (3::real)\<rfloor>)"
    using assms by (intro min_add_mono floor_level_mono) simp_all
  then show ?thesis
    by (simp only: getDifficultyConfig_def difficultyConfig.select_convs)
qed

lemma spreadShotLevel_mono:
  assumes "l \<le> m"
  shows "spreadShotLevel (getDifficultyConfig l) \<le> spreadShotLevel (getDifficultyConfig m)"
proof -
  have "\<lfloor>of_int l / (3::real)\<rfloor> \<le> \<lfloor>of_int m / (3::real)\<rfloor>"
    using assms by (intro floor_level_mono) simp_all
  then show ?thesis
    by (simp only: getDifficultyConfig_def difficultyConfig.select_convs)
qed

lemma formationComplexity_mono:
  assumes "l \<le> m"
  shows "formationComplexity (getDifficultyConfig l) \<le> formationComplexity (getDifficultyConfig m)"
proof -
  have "\<lfloor>(of_int l - 1) / (2::real)\<rfloor> \<le> \<lfloor>(of_int m - 1) / (2::real)\<rfloor>"
    using assms by (intro floor_mono divide_right_mono) simp_all
  then have "min 5 \<lfloor>(of_int l - 1) / (2::real)\<rfloor> \<le> min 5 \<lfloor>(of_int m - 1) / (2::real)\<rfloor>"
    by (simp add: min_le_iff_disj)
  then show ?thesis
    by (simp only: getDifficultyConfig_def difficultyConfig.select_convs)
qed

lemma ramp_mono:
  fixes c :: real
  assumes "l \<le> (m::int)"
  shows "c + (of_int l - k) * 0.05 \<le> c + (of_int m - k) * 0.05"
  using assms by simp

lemma shooterProbability_mono:
  assumes "1 \<le> l" and "l \<le> m"
  shows "shooterProbability (getDifficultyConfig l) \<le> shooterProbability (getDifficultyConfig m)"
proof -
  consider "m = 1" | "l = 1" "2 \<le> m" | "2 \<le> l" using assms by linarith
  then show ?thesis
  proof cases
    case 1
    with assms have "l = 1" by simp
    with 1 show ?thesis by simp
  next
    case 2
    then have "(0::real) \<le> 0.05 + (of_int m - 1) * 0.05" by simp
    then have "min (0.4::real) 0.0 \<le> min 0.4 (0.05 + (of_int m - 1) * 0.05)" by simp
    moreover have "m \<noteq> 1" using 2 by simp
    ultimately show ?thesis using 2(1)
      by (simp only: getDifficultyConfig_def difficultyConfig.select_convs if_True if_False refl)
  next
    case 3
    have "min (0.4::real) (0.05 + (of_int l - 1) * 0.05) \<le> min 0.4 (0.05 + (of_int m - 1) * 0.05)"
      using assms(2) by (intro min_add_mono) simp
    moreover have "l \<noteq> 1" "m \<noteq> 1" using 3 assms by simp_all
    ultimately show ?thesis
      by (simp only: getDifficultyConfig_def difficultyConfig.select_convs if_False)
  qed
qed

lemma fastProbability_mono:
  assumes "1 \<le> l" and "l \<le> m"
  shows "fastProbability (getDifficultyConfig l) \<le> fastProbability (getDifficultyConfig m)"
proof -
  consider "m = 1" | "l = 1" "2 \<le> m" | "2 \<le> l" using assms by linarith
  then show ?thesis
  proof cases
    case 1
    with assms have "l = 1" by simp
    with 1 show ?thesis by simp
  next
    case 2
    then have "(0::real) \<le> 0.05 + (of_int m - 1) * 0.05" by simp
    then have "min (0.3::real) 0.0 \<le> min 0.3 (0.05 + (of_int m - 1) * 0.05)" by simp
    moreover have "m \<noteq> 1" using 2 by simp
    ultimately show ?thesis using 2(1)
      by (simp only: getDifficultyConfig_def difficultyConfig.select_convs if_True if_False refl)
  next
    case 3
    have "min (0.3::real) (0.05 + (of_int l - 1) * 0.05) \<le> min 0.3 (0.05 + (of_int m - 1) * 0.05)"
      using assms(2) by (intro min_add_mono) simp
    moreover have "l \<noteq> 1" "m \<noteq> 1" using 3 assms by simp_all
    ultimately show ?thesis
      by (simp only: getDifficultyConfig_def difficultyConfig.select_convs if_False)
  qed
qed

lemma tankProbability_mono:
  assumes "l \<le> m"
  shows "tankProbability (getDifficultyConfig l) \<le> tankProbability (getDifficultyConfig m)"
proof -
  consider "m \<le> 2" | "l \<le> 2" "3 \<le> m" | "3 \<le> l" using assms by linarith
  then show ?thesis
  proof cases
    case 1
    with assms have "l \<le> 2" by simp
    with 1 show ?thesis
      by (simp only: getDifficultyConfig_def difficultyConfig.select_convs if_True)
  next
    case 2
    then have "(0::real) \<le> 0.05 + (of_int m - 2) * 0.05" by simp
    then have "min (0.3::real) 0.0 \<le> min 0.3 (0.05 + (of_int m - 2) * 0.05)" by simp
    moreover have "\<not> m \<le> 2" using 2 by simp
    ultimately show ?thesis using 2(1)
      by (simp only: getDifficultyConfig_def difficultyConfig.select_convs if_True if_False)
  next
    case 3
    have "min (0.3::real) (0.05 + (of_int l - 2) * 0.05) \<le> min 0.3 (0.05 + (of_int m - 2) * 0.05)"
      using assms by (intro min_add_mono) simp
    moreover have "\<not> l \<le> 2" "\<not> m \<le> 2" using 3 assms by simp_all
    ultimately show ?thesis
      by (simp only: getDifficultyConfig_def difficultyConfig.select_convs if_False)
  qed
qed

lemma powerUpChance_antimono:
  assumes "1 \<le> l" and "l \<le> m"
  shows "powerUpChance (getDifficultyConfig m) \<le> powerUpChance (getDifficultyConfig l)"
proof -
  consider "m = 1" | "l = 1" "2 \<le> m" | "2 \<le> l" using assms by linarith
  then show ?thesis
  proof cases
    case 1
    with assms have "l = 1" by simp
    with 1 show ?thesis by simp
  next
    case 2
    then have "(0::real) \<le> (of_int m - 2) * 0.02" by simp
    then have "max (0.1::real) (0.2 - (of_int m - 2) * 0.02) \<le> 0.3"
      unfolding max_def by (cases "(0.1::real) \<le> 0.2 - (of_int m - 2) * 0.02") simp_all
    moreover have "m \<noteq> 1" using 2 by simp
    ultimately show ?thesis using 2(1)
      by (simp only: getDifficultyConfig_def difficultyConfig.select_convs if_True if_False refl)
  next
    case 3
    have "(0.2::real) - (of_int m - 2) * 0.02 \<le> 0.2 - (of_int l - 2) * 0.02"
      using assms(2) by simp
    then have "max (0.1::real) (0.2 - (of_int m - 2) * 0.02) \<le> max 0.1 (0.2 - (of_int l - 2) * 0.02)"
      by (rule max.mono [OF order_refl])
    moreover have "l \<noteq> 1" "m \<noteq> 1" using 3 assms by simp_all
    ultimately show ?thesis
      by (simp only: getDifficultyConfig_def difficultyConfig.select_convs if_False)
  qed
qed

lemma waveDelay_antimono:
  assumes "l \<le> m"
  shows "waveDelay (getDifficultyConfig m) \<le> waveDelay (getDifficultyConfig l)"
proof -
  have "5000 - (m - 1) * 300 \<le> 5000 - (l - 1) * 300" using assms by simp
  then have "max 2000 (5000 - (m - 1) * 300) \<le> max 2000 (5000 - (l - 1) * 300)"
    by (rule max.mono [OF order_refl])
  then show ?thesis
    by (simp only: getDifficultyConfig_def difficultyConfig.select_convs)
qed

lemma baseEnemiesPerWave_ge_5:
  assumes "1 \<le> l"
  shows "5 \<le> baseEnemiesPerWave (getDifficultyConfig l)"
proof (cases "l = 1")
  case True
  then show ?thesis by (simp add: getDifficultyConfig_def)
next
  case False
  with assms have "2 \<le> l" by simp
  from floor_level_12_ge_2 [OF this] have "(5::int) \<le> min 15 (5 + \<lfloor>of_int l * (1.2::real)\<rfloor>)"
    by simp
  with False show ?thesis
    by (simp only: getDifficultyConfig_def difficultyConfig.select_convs if_False)
qed

text \<open>
  C3.  The claim reads: for all levels \<open>L \<ge> 1\<close> every field of \<open>getDifficultyConfig L\<close> is
  non-decreasing in \<open>L\<close> and clamped to a maximum.  Two fields decrease with the level:
  the delay between waves and the chance of a power-up drop.
\<close>

theorem difficulty_fields_decreasing:
  "\<not> waveDelay (getDifficultyConfig 1) \<le> waveDelay (getDifficultyConfig 2) \<and>
   \<not> powerUpChance (getDifficultyConfig 1) \<le> powerUpChance (getDifficultyConfig 2)"
  by (simp add: getDifficultyConfig_def)

text \<open>
  C3, as amended.  From level 1 on, the enemy count per wave, the number of waves, the
  health multiplier, the three spawn probabilities and the formation complexity are
  non-decreasing and clamped (15, 6, 3, 0.4, 0.3, 0.3, 5); the speed, bullet-speed and
  fire-rate multipliers and the spread-shot level are non-decreasing with no clamp; the
  two switches, once on, stay on; the wave delay and the power-up chance are
  non-increasing, with floors 2000 and 0.1.
\<close>

theorem difficulty_config_monotone:
  assumes "1 \<le> l" and "l \<le> m"
  shows
    "baseEnemiesPerWave (getDifficultyConfig l) \<le> baseEnemiesPerWave (getDifficultyConfig m) \<and>
       baseEnemiesPerWave (getDifficultyConfig m) \<le> 15 \<and>
     maxWaves (getDifficultyConfig l) \<le> maxWaves (getDifficultyConfig m) \<and>
       maxWaves (getDifficultyConfig m) \<le> 6 \<and>
     enemyHealthMultiplier (getDifficultyConfig l) \<le> enemyHealthMultiplier (getDifficultyConfig m) \<and>
       enemyHealthMultiplier (getDifficultyConfig m) \<le> 3 \<and>
     shooterProbability (getDifficultyConfig l) \<le> shooterProbability (getDifficultyConfig m) \<and>
       shooterProbability (getDifficultyConfig m) \<le> 0.4 \<and>
     tankProbability (getDifficultyConfig l) \<le> tankProbability (getDifficultyConfig m) \<and>
       tankProbability (getDifficultyConfig m) \<le> 0.3 \<and>
     fastProbability (getDifficultyConfig l) \<le> fastProbability (getDifficultyConfig m) \<and>
       fastProbability (getDifficultyConfig m) \<le> 0.3 \<and>
     formationComplexity (getDifficultyConfig l) \<le> formationComplexity (getDifficultyConfig m) \<and>
       formationComplexity (getDifficultyConfig m) \<le> 5 \<and>
     enemySpeedMultiplier (getDifficultyConfig l) \<le> enemySpeedMultiplier (getDifficultyConfig m) \<and>
     bulletSpeedMultiplier (getDifficultyConfig l) \<le> bulletSpeedMultiplier (getDifficultyConfig m) \<and>
     fireRateMultiplier (getDifficultyConfig l) \<le> fireRateMultiplier (getDifficultyConfig m) \<and>
     spreadShotLevel (getDifficultyConfig l) \<le> spreadShotLevel (getDifficultyConfig m) \<and>
     (divingEnemies (getDifficultyConfig l) \<longrightarrow> divingEnemies (getDifficultyConfig m)) \<and>
     (enemiesShootAngled (getDifficultyConfig l) \<longrightarrow> enemiesShootAngled (getDifficultyConfig m)) \<and>
     waveDelay (getDifficultyConfig m) \<le> waveDelay (getDifficultyConfig l) \<and>
       2000 \<le> waveDelay (getDifficultyConfig m) \<and>
     powerUpChance (getDifficultyConfig m) \<le> powerUpChance (getDifficultyConfig l) \<and>
       0.1 \<le> powerUpChance (getDifficultyConfig m)"
proof -
  have lm: "l \<le> m" and m1: "1 \<le> m" using assms by simp_all
  have caps:
    "baseEnemiesPerWave (getDifficultyConfig m) \<le> 15"
    "maxWaves (getDifficultyConfig m) \<le> 6"
    "enemyHealthMultiplier (getDifficultyConfig m) \<le> 3"
    "shooterProbability (getDifficultyConfig m) \<le> 0.4"
    "tankProbability (getDifficultyConfig m) \<le> 0.3"
    "fastProbability (getDifficultyConfig m) \<le> 0.3"
    "formationComplexity (getDifficultyConfig m) \<le> 5"
    "2000 \<le> waveDelay (getDifficultyConfig m)"
    by (simp_all add: getDifficultyConfig_def)
  have floor_chance: "0.1 \<le> powerUpChance (getDifficultyConfig m)"
  proof (cases "m = 1")
    case True
    then show ?thesis by (simp add: getDifficultyConfig_def)
  next
    case False
    have "(0.1::real) \<le> max 0.1 (0.2 - (of_int m - 2) * 0.02)" by (rule max.cobounded1)
    with False show ?thesis
      by (simp only: getDifficultyConfig_def difficultyConfig.select_convs if_False)
  qed
  have unclamped:
    "enemySpeedMultiplier (getDifficultyConfig l) \<le> enemySpeedMultiplier (getDifficultyConfig m)"
    "bulletSpeedMultiplier (getDifficultyConfig l) \<le> bulletSpeedMultiplier (getDifficultyConfig m)"
    "fireRateMultiplier (getDifficultyConfig l) \<le> fireRateMultiplier (getDifficultyConfig m)"
    "divingEnemies (getDifficultyConfig l) \<longrightarrow> divingEnemies (getDifficultyConfig m)"
    "enemiesShootAngled (getDifficultyConfig l) \<longrightarrow> enemiesShootAngled (getDifficultyConfig m)"
    using lm by (simp_all add: getDifficultyConfig_def)
  note mono =
    baseEnemiesPerWave_mono [OF assms] maxWaves_mono [OF lm] enemyHealthMultiplier_mono [OF lm]
    shooterProbability_mono [OF assms] tankProbability_mono [OF lm]
    fastProbability_mono [OF assms] formationComplexity_mono [OF lm]
    spreadShotLevel_mono [OF lm] waveDelay_antimono [OF lm] powerUpChance_antimono [OF assms]
  show ?thesis
    by (intro conjI caps floor_chance unclamped mono)
qed

theorem difficulty_config_monotone_witness:
  "(1::int) \<le> 2 \<and> (2::int) \<le> 7 \<and>
   enemyHealthMultiplier (getDifficultyConfig 2) = 1 \<and>
   enemyHealthMultiplier (getDifficultyConfig 7) = 3 \<and>
   enemyHealthMultiplier (getDifficultyConfig 2) \<le> enemyHealthMultiplier (getDifficultyConfig 7) \<and>
   enemyHealthMultiplier (getDifficultyConfig 7) \<le> 3 \<and>
   waveDelay (getDifficultyConfig 7) \<le> waveDelay (getDifficultyConfig 2)"
  using difficulty_config_monotone [of 2 7] by (simp add: getDifficultyConfig_def)

subsection \<open>Collision tests\<close>

text \<open>
  C5.  The claim reads: \<open>checkCollision(A,B) = checkCollision(B,A)\<close> for every pair of
  collidable entities, PowerUp against the corner-anchored entities included.  A PowerUp
  tests the rectangle centred at its own \<open>(x, y)\<close> against the other object's rectangle
  anchored at its corner, so the two directions differ: a power-up at (100,100) reports
  a collision with a bullet at (80,100) that the bullet does not report back, and of two
  power-ups at (0,0) and (40,0) only the second reports the first.
\<close>

theorem checkCollision_powerUp_asymmetric:
  "checkCollision (OfPowerUp (PowerUp_new 100 100 (Some HEALTH)))
                  (OfBullet (Bullet_new 80 100 False 0 None None)) \<and>
   \<not> checkCollision (OfBullet (Bullet_new 80 100 False 0 None None))
                    (OfPowerUp (PowerUp_new 100 100 (Some HEALTH))) \<and>
   checkCollision (OfPowerUp (PowerUp_new 40 0 (Some SHIELD))) (OfPowerUp (PowerUp_new 0 0 (Some SHIELD))) \<and>
   \<not> checkCollision (OfPowerUp (PowerUp_new 0 0 (Some SHIELD))) (OfPowerUp (PowerUp_new 40 0 (Some SHIELD)))"
  by (simp add: PowerUp_checkCollision_def Bullet_checkCollision_def PowerUp_new_def
      Bullet_new_def)

text \<open>
  C5, as amended.  \<open>Bullet.checkCollision\<close>, the test between two corner-anchored
  rectangles, is symmetric; it reports no collision when the two rectangles have no
  overlap of positive extent on some axis (touching edges included); and
  \<open>PowerUp.checkCollision\<close> reports none when the rectangle centred at the power-up has
  no such overlap with the other object's corner-anchored rectangle.
\<close>

theorem checkCollision_symmetric_strict:
  fixes a :: bullet and b :: bullet and p :: powerUp and other :: "'o gameObject_scheme"
  shows
    "checkCollision (OfBullet a) (OfBullet b) = checkCollision (OfBullet b) (OfBullet a) \<and>
     (x a + width a \<le> x other \<or> x other + width other \<le> x a \<or>
      y a + height a \<le> y other \<or> y other + height other \<le> y a
        \<longrightarrow> \<not> Bullet_checkCollision a other) \<and>
     (x p + width p / 2 \<le> x other \<or> x other + width other \<le> x p - width p / 2 \<or>
      y p + height p / 2 \<le> y other \<or> y other + height other \<le> y p - height p / 2
        \<longrightarrow> \<not> PowerUp_checkCollision p other)"
  by (auto simp: Bullet_checkCollision_def PowerUp_checkCollision_def)

theorem checkCollision_symmetric_strict_witness:
  "x (Bullet_new 0 0 False 0 None None) + width (Bullet_new 0 0 False 0 None None)
     \<le> x (Bullet_new 12 0 True 0 None None) \<and>
   \<not> Bullet_checkCollision (Bullet_new 0 0 False 0 None None) (Bullet_new 12 0 True 0 None None) \<and>
   x (Bullet_new 12 0 True 0 None None) + width (Bullet_new 12 0 True 0 None None)
     \<le> x (PowerUp_new 39 0 (Some SPEED)) - width (PowerUp_new 39 0 (Some SPEED)) / 2 \<and>
   \<not> PowerUp_checkCollision (PowerUp_new 39 0 (Some SPEED)) (Bullet_new 12 0 True 0 None None)"
  using checkCollision_symmetric_strict
    [of "Bullet_new 0 0 False 0 None None" "Bullet_new 12 0 True 0 None None"
        "Bullet_new 12 0 True 0 None None" "PowerUp_new 39 0 (Some SPEED)"]
  by (simp add: Bullet_new_def PowerUp_new_def Bullet_checkCollision_def
      PowerUp_checkCollision_def)

subsection \<open>Tank enemies\<close>

lemma hit_type [simp]: "enemy.type (fst (hit e)) = enemy.type e"
  by (simp add: hit_def Let_def)

lemma hitTimes_Suc: "hitTimes (Suc n) e = fst (hit (hitTimes n e))"
  by (simp add: hitTimes_def)

lemma hitTimes_type [simp]: "enemy.type (hitTimes n e) = enemy.type e"
  by (induction n) (simp_all add: hitTimes_def)

lemma hitTimes_health: "enemy.health (hitTimes n e) = enemy.health e - int n"
  by (induction n) (simp_all add: hitTimes_def hit_def Let_def)

lemma hitTimes_initialSize:
  "enemy.type e = TANK \<Longrightarrow> initialSize (hitTimes n e) = initialSize e - 0.2 * of_nat n"
proof (induction n)
  case 0
  then show ?case by (simp add: hitTimes_def)
next
  case (Suc n)
  then show ?case by (simp add: hitTimes_Suc hit_def Let_def field_simps)
qed

lemma hit_destroyed: "snd (hit e) \<longleftrightarrow> enemy.health e \<le> 1"
  by (simp add: hit_def Let_def)

lemma hitTimes_destroyed: "snd (hit (hitTimes n e)) \<longleftrightarrow> enemy.health e \<le> int n + 1"
  unfolding hit_destroyed hitTimes_health by linarith

lemma Enemy_new_type [simp]: "enemy.type (Enemy_new ex ey t lvl) = t"
  by (simp add: Enemy_new_def setupType_def calculateBulletSpeedMultiplier_def Let_def
      split: EnemyType.splits)

lemma Enemy_new_tank:
  "enemy.health (Enemy_new ex ey TANK lvl) = 3" "initialSize (Enemy_new ex ey TANK lvl) = 1"
  by (simp_all add: Enemy_new_def setupType_def calculateBulletSpeedMultiplier_def Let_def)

lemma Enemy_new_basic:
  "x (Enemy_new ex ey BASIC lvl) = ex" "targetY (Enemy_new ex ey BASIC lvl) = ey"
  by (simp_all add: Enemy_new_def setupType_def calculateBulletSpeedMultiplier_def Let_def)

lemma spawned_type:
  "enemy.type (spawned col row lvl cnt w) =
     rolledType (difficultyConfigRef w) (outcomes (random w) (drawn (random w)))"
  by (simp add: spawned_def spawnEnemy_def rolledType_def Math_random_def Let_def
      split: prod.splits)

lemma spawned_tank_fields:
  assumes "enemy.type (spawned col row lvl cnt w) = TANK"
  shows "enemy.health (spawned col row lvl cnt w) = 3 * enemyHealthMultiplier (difficultyConfigRef w)"
    and "initialSize (spawned col row lvl cnt w) = 1"
  using assms
  by (auto simp: spawned_def spawnEnemy_def Math_random_def Let_def Enemy_new_tank
      split: prod.splits if_splits)

lemma rolled_tank_level:
  assumes "rolledType (getDifficultyConfig L) rnd = TANK"
  shows "3 \<le> L"
proof (rule ccontr)
  assume "\<not> 3 \<le> L"
  then have "tankProbability (getDifficultyConfig L) = 0"
    by (simp add: getDifficultyConfig_def)
  with assms show False
    by (simp add: rolledType_def split: if_splits)
qed

lemma healthMultiplier_from_3:
  assumes "3 \<le> L"
  shows "2 \<le> enemyHealthMultiplier (getDifficultyConfig L)"
proof -
  have "\<lfloor>of_int (3::int) / (3::real)\<rfloor> \<le> \<lfloor>of_int L / (3::real)\<rfloor>"
    using assms by (intro floor_level_mono) simp_all
  then have "1 \<le> \<lfloor>of_int L / (3::real)\<rfloor>" by simp
  then have "(2::int) \<le> min 3 (1 + \<lfloor>of_int L / (3::real)\<rfloor>)" by simp
  then show ?thesis
    by (simp only: getDifficultyConfig_def difficultyConfig.select_convs)
qed

text \<open>
  C4, as amended.  A Tank has health 3 when constructed, and \<open>spawnEnemy\<close> multiplies it
  by the level's health multiplier.  Under the configuration of level \<open>L\<close> a Tank is
  rolled only from level 3 on, where the multiplier is 2 or 3: the spawned Tank has
  health \<open>3 * enemyHealthMultiplier(L)\<close>, at least 6, and the call of \<^verbatim>\<open>hit()\<close> number
  \<open>n + 1\<close> returns true exactly when \<open>n + 1\<close> has reached that health, never sooner.
  Each hit lowers \<open>initialSize\<close> by 0.2.  A Tank taken as constructed, with no
  multiplier, is destroyed by its third hit and not before.
\<close>

theorem spawned_tank_hits:
  assumes "difficultyConfigRef w = getDifficultyConfig L"
    and "enemy.type (spawned col row lvl cnt w) = TANK"
  shows "3 \<le> L \<and>
    enemy.health (spawned col row lvl cnt w) = 3 * enemyHealthMultiplier (getDifficultyConfig L) \<and>
    6 \<le> enemy.health (spawned col row lvl cnt w) \<and>
    (\<forall>n. snd (hit (hitTimes n (spawned col row lvl cnt w)))
           \<longleftrightarrow> enemy.health (spawned col row lvl cnt w) \<le> int n + 1) \<and>
    (\<forall>n. initialSize (hitTimes n (spawned col row lvl cnt w)) = 1 - 0.2 * of_nat n) \<and>
    (\<forall>n. snd (hit (hitTimes n (Enemy_new ex ey TANK lvl))) \<longleftrightarrow> 3 \<le> int n + 1)"
proof -
  have L: "3 \<le> L"
    using assms spawned_type [of col row lvl cnt w] by (auto intro: rolled_tank_level)
  have h: "enemy.health (spawned col row lvl cnt w) = 3 * enemyHealthMultiplier (getDifficultyConfig L)"
    using spawned_tank_fields(1) [OF assms(2)] assms(1) by simp
  have six: "6 \<le> enemy.health (spawned col row lvl cnt w)"
    using h healthMultiplier_from_3 [OF L] by simp
  have size: "initialSize (hitTimes n (spawned col row lvl cnt w)) = 1 - 0.2 * of_nat n" for n
    using hitTimes_initialSize [OF assms(2), of n] spawned_tank_fields(2) [OF assms(2)] by simp
  show ?thesis
    using L h six size by (simp add: hitTimes_destroyed Enemy_new_tank)
qed

lemma level3_tank:
  "enemy.type (spawned 0 0 3 7 level3World) = TANK"
  by (simp add: spawned_type level3World_def initialWorld_def always_def rolledType_def getDifficultyConfig_def)

text \<open>
  C4.  The claim reads: a Tank as spawned by the game is destroyed by exactly 3 hits.
  At level 3 (random roll 0.2) \<open>spawnEnemy\<close> creates a Tank of health 6, and its third
  hit returns false.
\<close>

theorem spawned_tank_survives_three_hits:
  "enemy.type (spawned 0 0 3 7 level3World) = TANK \<and>
   enemy.health (spawned 0 0 3 7 level3World) = 6 \<and>
   \<not> snd (hit (hitTimes 2 (spawned 0 0 3 7 level3World)))"
proof -
  have "enemy.health (spawned 0 0 3 7 level3World) = 6"
    using spawned_tank_fields(1) [OF level3_tank]
    by (simp add: level3World_def initialWorld_def getDifficultyConfig_def)
  then show ?thesis
    by (simp add: level3_tank hitTimes_destroyed)
qed

theorem spawned_tank_hits_witness:
  "difficultyConfigRef level3World = getDifficultyConfig 3 \<and>
   enemy.type (spawned 0 0 3 7 level3World) = TANK \<and>
   enemy.health (spawned 0 0 3 7 level3World) = 6 \<and>
   \<not> snd (hit (hitTimes 4 (spawned 0 0 3 7 level3World))) \<and>
   snd (hit (hitTimes 5 (spawned 0 0 3 7 level3World)))"
proof -
  have c: "difficultyConfigRef level3World = getDifficultyConfig 3"
    by (simp add: level3World_def initialWorld_def)
  have m: "enemyHealthMultiplier (getDifficultyConfig 3) = 2"
    by (simp add: getDifficultyConfig_def)
  show ?thesis
    using spawned_tank_hits [OF c level3_tank, of 0 0] c level3_tank m by simp
qed

text \<open>
  The scale \<^verbatim>\<open>draw\<close> computes from \<open>initialSize\<close> and the health is not monotone for a
  Tank of health 9 (levels 6 and up): the eighth hit makes the hexagon larger.
\<close>

lemma tank_draw_scale_not_monotone:
  "sizeMultiplier (hitTimes 7 ((Enemy_new 0 0 TANK 6)\<lparr> enemy.health := 9 \<rparr>))
     < sizeMultiplier (hitTimes 8 ((Enemy_new 0 0 TANK 6)\<lparr> enemy.health := 9 \<rparr>))"
proof -
  let ?e = "(Enemy_new 0 0 TANK 6)\<lparr> enemy.health := 9 \<rparr>"
  have t: "enemy.type ?e = TANK" by simp
  have s: "initialSize ?e = 1" by (simp add: Enemy_new_tank)
  show ?thesis
    using hitTimes_initialSize [OF t, of 7] hitTimes_initialSize [OF t, of 8]
      hitTimes_health [of 7 ?e] hitTimes_health [of 8 ?e] s
    by (simp add: sizeMultiplier_def)
qed

subsection \<open>The first wave of level 1\<close>

lemma unitInterval_drawn [simp]: "unitInterval (rs\<lparr> drawn := n \<rparr>) = unitInterval rs"
  by (simp add: unitInterval_def)

lemma rolledType_level1:
  assumes "0 \<le> rnd"
  shows "rolledType (getDifficultyConfig 1) rnd = BASIC"
  using assms by (simp add: rolledType_def getDifficultyConfig_def)

lemma Enemy_new_position [simp]:
  "x (Enemy_new ex ey t lvl) = ex" "targetY (Enemy_new ex ey t lvl) = ey"
  by (simp_all add: Enemy_new_def setupType_def calculateBulletSpeedMultiplier_def Let_def
      split: EnemyType.splits)

lemma spawnEnemy_pushes:
  "spawnEnemy col row lvl cnt w =
     w\<lparr> enemiesRef := enemiesRef w @ [spawned col row lvl cnt w],
        random := random (spawnEnemy col row lvl cnt w) \<rparr>"
  by (simp add: spawned_def spawnEnemy_def Let_def split: prod.splits)

lemma spawned_position:
  "x (spawned col row lvl cnt w) = 80 + col * (GAME_WIDTH - 160) / (of_int cnt - 1)"
  "targetY (spawned col row lvl cnt w) = 60 + row * 60"
  by (simp_all add: spawned_def spawnEnemy_def Let_def split: prod.splits)

lemma spawnEnemy_random_no_dive:
  assumes "\<not> divingEnemies (difficultyConfigRef w)"
  shows "random (spawnEnemy col row lvl cnt w) = (random w)\<lparr> drawn := Suc (drawn (random w)) \<rparr>"
  using assms by (simp add: spawnEnemy_def Math_random_def Let_def split: prod.splits)

lemma spawnEnemy_level1:
  assumes "difficultyConfigRef w = getDifficultyConfig 1" and "unitInterval (random w)"
  shows "\<exists>e. spawnEnemy col row lvl cnt w =
               w\<lparr> enemiesRef := enemiesRef w @ [e],
                  random := (random w)\<lparr> drawn := Suc (drawn (random w)) \<rparr> \<rparr>
             \<and> enemy.type e = BASIC
             \<and> x e = 80 + col * (GAME_WIDTH - 160) / (of_int cnt - 1)
             \<and> targetY e = 60 + row * 60"
proof -
  have "0 \<le> outcomes (random w) (drawn (random w))"
    using assms(2) by (simp add: unitInterval_def)
  then have t: "enemy.type (spawned col row lvl cnt w) = BASIC"
    using assms(1) by (simp add: spawned_type rolledType_level1)
  have "\<not> divingEnemies (difficultyConfigRef w)"
    using assms(1) by (simp add: getDifficultyConfig_def)
  from spawnEnemy_random_no_dive [OF this]
  have "spawnEnemy col row lvl cnt w =
          w\<lparr> enemiesRef := enemiesRef w @ [spawned col row lvl cnt w],
             random := (random w)\<lparr> drawn := Suc (drawn (random w)) \<rparr> \<rparr>"
    using spawnEnemy_pushes [of col row lvl cnt w] by simp
  with t spawned_position [of col row lvl cnt w] show ?thesis by blast
qed

lemma linear_level1:
  assumes "difficultyConfigRef w = getDifficultyConfig 1" and "unitInterval (random w)"
  shows "\<exists>es. fold (\<lambda>col. spawnEnemy (of_nat col) row lvl cnt) cs w =
                w\<lparr> enemiesRef := enemiesRef w @ es,
                   random := (random w)\<lparr> drawn := drawn (random w) + length cs \<rparr> \<rparr>
              \<and> map (\<lambda>e. (enemy.type e, x e, targetY e)) es =
                map (\<lambda>col. (BASIC, 80 + of_nat col * (GAME_WIDTH - 160) / (of_int cnt - 1),
                             60 + row * 60)) cs"
  using assms
proof (induction cs arbitrary: w)
  case Nil
  then show ?case by simp
next
  case (Cons c cs)
  from spawnEnemy_level1 [OF Cons.prems, of "of_nat c" row lvl cnt]
  obtain e where e:
    "spawnEnemy (of_nat c) row lvl cnt w =
       w\<lparr> enemiesRef := enemiesRef w @ [e],
          random := (random w)\<lparr> drawn := Suc (drawn (random w)) \<rparr> \<rparr>"
    "enemy.type e = BASIC"
    "x e = 80 + of_nat c * (GAME_WIDTH - 160) / (of_int cnt - 1)"
    "targetY e = 60 + row * 60"
    by blast
  let ?w = "w\<lparr> enemiesRef := enemiesRef w @ [e],
              random := (random w)\<lparr> drawn := Suc (drawn (random w)) \<rparr> \<rparr>"
  have "difficultyConfigRef ?w = getDifficultyConfig 1" "unitInterval (random ?w)"
    using Cons.prems by simp_all
  from Cons.IH [OF this] obtain es where es:
    "fold (\<lambda>col. spawnEnemy (of_nat col) row lvl cnt) cs ?w =
       ?w\<lparr> enemiesRef := enemiesRef ?w @ es,
           random := (random ?w)\<lparr> drawn := drawn (random ?w) + length cs \<rparr> \<rparr>"
    "map (\<lambda>e. (enemy.type e, x e, targetY e)) es =
       map (\<lambda>col. (BASIC, 80 + of_nat col * (GAME_WIDTH - 160) / (of_int cnt - 1),
                    60 + row * 60)) cs"
    by blast
  show ?case
    by (rule exI [of _ "e # es"]) (simp add: e es)
qed

text \<open>
  C7.  With the difficulty configuration of level 1 and any outcomes of \<^verbatim>\<open>Math.random()\<close>
  in \<open>[0, 1)\<close>, \<open>spawnEnemyWave(1, 0, ctx)\<close> chooses the linear formation and appends
  exactly five enemies, all Basic, in one row at x = 80, 240, 400, 560, 720.
\<close>

theorem level1_wave0_spawn:
  assumes "difficultyConfigRef w = getDifficultyConfig 1" and "unitInterval (random w)"
  shows "fst (chooseFormation 1 (w\<lparr> currentWaveRef := 0 \<rparr>)) = Some Linear \<and>
    (\<exists>es. enemiesRef (spawnEnemyWave 1 0 w) = enemiesRef w @ es \<and> length es = 5 \<and>
          map enemy.type es = [BASIC, BASIC, BASIC, BASIC, BASIC] \<and>
          map (\<lambda>e. (x e, targetY e)) es = [(80, 60), (240, 60), (400, 60), (560, 60), (720, 60)])"
proof -
  let ?w1 = "w\<lparr> currentWaveRef := 0 \<rparr>"
  have f: "chooseFormation 1 ?w1 = (Some Linear, ?w1)"
    by (simp add: chooseFormation_def)
  have mw: "maxWaves (getDifficultyConfig 1) = 1"
    by (simp add: getDifficultyConfig_def)
  have pre: "difficultyConfigRef ?w1 = getDifficultyConfig 1" "unitInterval (random ?w1)"
    using assms by simp_all
  from linear_level1 [OF pre, of 0 1 5 "columns 5"] obtain es where es:
    "fold (\<lambda>col. spawnEnemy (of_nat col) 0 1 5) (columns 5) ?w1 =
       ?w1\<lparr> enemiesRef := enemiesRef ?w1 @ es,
            random := (random ?w1)\<lparr> drawn := drawn (random ?w1) + length (columns 5) \<rparr> \<rparr>"
    "map (\<lambda>e. (enemy.type e, x e, targetY e)) es =
       map (\<lambda>col. (BASIC, 80 + of_nat col * (GAME_WIDTH - 160) / (of_int 5 - 1), 60 + 0 * 60))
         (columns 5)"
    by blast
  have cols: "columns 5 = [0, 1, 2, 3, 4]"
    by (simp add: columns_def upt_rec)
  have m: "map (\<lambda>e. (enemy.type e, x e, targetY e)) es =
             [(BASIC, 80, 60), (BASIC, 240, 60), (BASIC, 400, 60), (BASIC, 560, 60), (BASIC, 720, 60)]"
    using es(2) by (simp add: cols GAME_WIDTH_def)
  have len: "length es = 5"
    using arg_cong [OF m, of length] by simp
  have types: "map enemy.type es = [BASIC, BASIC, BASIC, BASIC, BASIC]"
    using arg_cong [OF m, of "map fst"] by (simp add: comp_def)
  have pos: "map (\<lambda>e. (x e, targetY e)) es = [(80, 60), (240, 60), (400, 60), (560, 60), (720, 60)]"
    using arg_cong [OF m, of "map snd"] by (simp add: comp_def)
  have wave: "enemiesRef (spawnEnemyWave 1 0 w) = enemiesRef w @ es"
    using assms(1) es(1)
    by (simp add: spawnEnemyWave_def spawnEnemyWave_closure_def f mw createFormation_def
        setTimeout_def Let_def)
  show ?thesis
    using f wave len types pos by auto
qed

theorem level1_wave0_spawn_witness:
  "difficultyConfigRef (initialWorld (always 0.5) 0) = getDifficultyConfig 1 \<and>
   unitInterval (random (initialWorld (always 0.5) 0)) \<and>
   length (enemiesRef (spawnEnemyWave 1 0 (initialWorld (always 0.5) 0))) = 5 \<and>
   map enemy.type (enemiesRef (spawnEnemyWave 1 0 (initialWorld (always 0.5) 0)))
     = [BASIC, BASIC, BASIC, BASIC, BASIC]"
proof -
  let ?w = "initialWorld (always 0.5) 0"
  have c: "difficultyConfigRef ?w = getDifficultyConfig 1"
    by (simp add: initialWorld_def)
  have u: "unitInterval (random ?w)"
    by (simp add: initialWorld_def always_def unitInterval_def)
  have "enemiesRef ?w = []" by (simp add: initialWorld_def)
  with level1_wave0_spawn [OF c u] obtain es where es:
    "enemiesRef (spawnEnemyWave 1 0 ?w) = es" "length es = 5"
    "map enemy.type es = [BASIC, BASIC, BASIC, BASIC, BASIC]"
    by auto
  with c u show ?thesis by simp
qed

subsection \<open>Level completion and the grace window\<close>

lemma handleLevelComplete_grace:
  "gameJustStartedRef w \<Longrightarrow> handleLevelComplete_closure gs nextLevel w = w"
  by (simp add: handleLevelComplete_closure_def)

text \<open>
  C2.  While \<open>gameJustStartedRef\<close> is set, every path into \<open>handleLevelComplete\<close> and
  every completion check leaves the world as it is: \<open>handleLevelComplete\<close> itself
  (whatever state its closure holds), the check inside the game loop, the 500 ms
  observer and the confirmation it arms, the last-wave timer, and \<open>spawnEnemyWave\<close>
  called past the last wave.  The one-second timer of the in-loop check only forgets its
  own handle.  So the level, the victory flag, the wave counter and the enemies are
  unchanged.
\<close>

theorem grace_window_suppresses_completion:
  assumes "gameJustStartedRef w"
  shows "handleLevelComplete_closure gs nextLevel w = w \<and>
         handleLevelComplete nextLevel w = w \<and>
         checkForLevelCompletion gs w = w \<and>
         checkEnemiesInterval gs w = w \<and>
         observerConfirm gs w = w \<and>
         checkLastWave lvl w = w \<and>
         forceLevelProgress gs w = w\<lparr> levelProgressTimeoutRef := None \<rparr> \<and>
         (waveNumber \<ge> maxWaves (difficultyConfigRef w) \<longrightarrow> spawnEnemyWave lvl waveNumber w = w)"
  using assms
  by (simp add: handleLevelComplete_grace handleLevelComplete_def checkForLevelCompletion_def
      checkEnemiesInterval_def observerConfirm_def checkLastWave_def forceLevelProgress_def
      spawnEnemyWave_def spawnEnemyWave_closure_def)

theorem grace_window_suppresses_completion_witness:
  "gameJustStartedRef (initialWorld (always 0.5) 0) \<and>
   enemiesRef (initialWorld (always 0.5) 0) = [] \<and>
   checkForLevelCompletion initialGameState (initialWorld (always 0.5) 0)
     = initialWorld (always 0.5) 0 \<and>
   checkLastWave 1 (initialWorld (always 0.5) 0) = initialWorld (always 0.5) 0 \<and>
   observerConfirm initialGameState (initialWorld (always 0.5) 0) = initialWorld (always 0.5) 0"
proof -
  have g: "gameJustStartedRef (initialWorld (always 0.5) 0)"
    by (simp add: initialWorld_def)
  show ?thesis
    using grace_window_suppresses_completion [OF g, of initialGameState _ 1] g
    by (simp add: initialWorld_def)
qed

text \<open>
  Past the grace window \<open>handleLevelComplete\<close> runs whatever the \<open>victory\<close> field of the
  current state says: it arms a fresh 2.5 s callback and sets the level.
\<close>

lemma handleLevelComplete_ignores_victory:
  assumes "\<not> gameJustStartedRef w"
  shows "task (last (timers (handleLevelComplete nextLevel w))) = BeginNextLevel nextLevel"
    and "handle (last (timers (handleLevelComplete nextLevel w))) = Suc (lastHandle w)"
    and "level (gameState (handleLevelComplete nextLevel w)) = nextLevel"
  using assms
  by (simp_all add: handleLevelComplete_def handleLevelComplete_closure_def initialGameState_def
      saveGameProgress_def setTimeout_def clearTimeout_def Let_def split: option.splits)

text \<open>
  C1.  The guard \<^verbatim>\<open>if (gameState.victory) return\<close> of \<open>handleLevelComplete\<close> reads the state
  of the first render, where \<open>victory\<close> is false, so it never stops a second call.  In
  the cleared level-2 world the last-wave timer completes the level (the state now has
  \<open>victory\<close> set and level 3); the observer's confirmation and the in-loop check, run
  next with the state their closures captured before, each run the transition again: three
  2.5 s callbacks for level 3 are pending.
\<close>

theorem level_completion_runs_twice:
  "length (enemiesRef level2Cleared) = 0 \<and>
   \<not> gameJustStartedRef level2Cleared \<and>
   victory (gameState (checkLastWave 2 level2Cleared)) \<and>
   level (gameState (checkLastWave 2 level2Cleared)) = 3 \<and>
   map task (timers (checkLastWave 2 level2Cleared)) = [BeginNextLevel 3] \<and>
   map task (timers (observerConfirm (gameState level2Cleared) (checkLastWave 2 level2Cleared)))
     = [BeginNextLevel 3, BeginNextLevel 3] \<and>
   map task (timers (checkForLevelCompletion (gameState level2Cleared)
       (observerConfirm (gameState level2Cleared) (checkLastWave 2 level2Cleared))))
     = [BeginNextLevel 3, BeginNextLevel 3, BeginNextLevel 3]"
  by (simp add: level2Cleared_def initialWorld_def checkLastWave_def observerConfirm_def
      checkForLevelCompletion_def handleLevelComplete_def handleLevelComplete_closure_def
      initialGameState_def saveGameProgress_def truthy_def setTimeout_def Let_def
      getDifficultyConfig_def)

text \<open>
  A pending timer whose handle is in none of the three refs survives \<open>startNewGame\<close>.
\<close>

lemma startNewGame_keeps_untracked:
  assumes "t \<in> set (timers w)"
    and "waveTimeoutRef w \<noteq> Some (handle t)"
    and "levelProgressTimeoutRef w \<noteq> Some (handle t)"
    and "gameOverTimeoutRef w \<noteq> Some (handle t)"
  shows "t \<in> set (timers (startNewGame gs w))"
  using assms
  by (auto simp: startNewGame_def clearGameProgress_def setTimeout_def clearTimeout_def Let_def
      split: option.splits)

text \<open>
  C9.  \<open>startNewGame\<close> clears the three timers it holds in refs (wave, level progress,
  game-over fade).  The 2.5 s callback of a level transition is held in no ref: it
  survives the new game, and when it fires the new game (level 1) gets the difficulty
  configuration of level 3 and a pending spawn of level 3's first wave.
\<close>

theorem startNewGame_leaves_timers:
  "map task (timers gameOverDuringAdvance) = [BeginNextLevel 3] \<and>
   map task (timers (startNewGame (gameState gameOverDuringAdvance) gameOverDuringAdvance))
     = [BeginNextLevel 3, NewGameSpawn (gameState gameOverDuringAdvance)] \<and>
   level (gameState (startNewGame (gameState gameOverDuringAdvance) gameOverDuringAdvance)) = 1 \<and>
   level (gameState (fire 1 (startNewGame (gameState gameOverDuringAdvance) gameOverDuringAdvance))) = 1 \<and>
   difficultyConfigRef (fire 1 (startNewGame (gameState gameOverDuringAdvance) gameOverDuringAdvance))
     = getDifficultyConfig 3 \<and>
   map task (timers (fire 1 (startNewGame (gameState gameOverDuringAdvance) gameOverDuringAdvance)))
     = [NewGameSpawn (gameState gameOverDuringAdvance), SpawnNextLevel 3, HideLevelText]"
  by (simp add: gameOverDuringAdvance_def level2Cleared_def initialWorld_def checkLastWave_def
      handleLevelComplete_def handleLevelComplete_closure_def startNewGame_def fire_def
      beginNextLevel_def clearGameProgress_def clearTimeout_def
      initialGameState_def saveGameProgress_def truthy_def setTimeout_def Let_def)

text \<open>What \<open>startNewGame\<close> does reset, from any world.\<close>

lemma startNewGame_resets:
  "gameState (startNewGame gs w) = initialGameState"
  "enemiesRef (startNewGame gs w) = []"
  "currentWaveRef (startNewGame gs w) = 0"
  "difficultyConfigRef (startNewGame gs w) = getDifficultyConfig 1"
  "gameJustStartedRef (startNewGame gs w)"
  "waveTimeoutRef (startNewGame gs w) = None \<or> waveTimeoutRef (startNewGame gs w) = Some 0"
  by (auto simp: startNewGame_def initialGameState_def clearGameProgress_def setTimeout_def
      clearTimeout_def truthy_def Let_def split: option.splits)

subsection \<open>The power-up pass\<close>

lemma pushParticles_frame:
  "\<exists>pa rs. pushParticles n px py col w = w\<lparr> particles := pa, random := rs \<rparr>
           \<and> outcomes rs = outcomes (random w)"
proof (induction n arbitrary: w)
  case 0
  have "pushParticles 0 px py col w = w\<lparr> particles := particles w, random := random w \<rparr>"
    by simp
  then show ?case by blast
next
  case (Suc n)
  obtain p rs where p: "Particle_new px py col (random w) = (p, rs)"
    by (cases "Particle_new px py col (random w)")
  then have o: "outcomes rs = outcomes (random w)"
    by (auto simp: Particle_new_def Math_random_def Let_def split: prod.splits)
  let ?w1 = "w\<lparr> particles := particles w @ [p], random := rs \<rparr>"
  from Suc.IH [of ?w1] obtain pa rs' where
    "pushParticles n px py col ?w1 = ?w1\<lparr> particles := pa, random := rs' \<rparr>"
    "outcomes rs' = outcomes (random ?w1)"
    by blast
  then have "pushParticles (Suc n) px py col w = w\<lparr> particles := pa, random := rs' \<rparr>"
    "outcomes rs' = outcomes (random w)"
    using p o by simp_all
  then show ?case by blast
qed

lemma createExplosion_frame:
  "\<exists>pa rs. createExplosion px py col w = w\<lparr> particles := pa, random := rs \<rparr>
           \<and> outcomes rs = outcomes (random w)"
  unfolding createExplosion_def by (rule pushParticles_frame)

lemma pushParticles_proj:
  "bullets (pushParticles n px py col w) = bullets w"
  "gameState (pushParticles n px py col w) = gameState w"
  "enemiesRef (pushParticles n px py col w) = enemiesRef w"
  "player (pushParticles n px py col w) = player w"
  "powerUps (pushParticles n px py col w) = powerUps w"
  "explosions (pushParticles n px py col w) = explosions w"
  "timers (pushParticles n px py col w) = timers w"
  "dateNow (pushParticles n px py col w) = dateNow w"
  "lastRef (pushParticles n px py col w) = lastRef w"
  "lastHandle (pushParticles n px py col w) = lastHandle w"
  "outcomes (random (pushParticles n px py col w)) = outcomes (random w)"
proof -
  from pushParticles_frame [of n px py col w] obtain pa rs where
    e: "pushParticles n px py col w = w\<lparr> particles := pa, random := rs \<rparr>"
    and o: "outcomes rs = outcomes (random w)" by blast
  show "bullets (pushParticles n px py col w) = bullets w"
    "gameState (pushParticles n px py col w) = gameState w"
    "enemiesRef (pushParticles n px py col w) = enemiesRef w"
    "player (pushParticles n px py col w) = player w"
    "powerUps (pushParticles n px py col w) = powerUps w"
    "explosions (pushParticles n px py col w) = explosions w"
    "timers (pushParticles n px py col w) = timers w"
    "dateNow (pushParticles n px py col w) = dateNow w"
    "lastRef (pushParticles n px py col w) = lastRef w"
    "lastHandle (pushParticles n px py col w) = lastHandle w"
    "outcomes (random (pushParticles n px py col w)) = outcomes (random w)"
    by (simp_all add: e o)
qed


lemma pushParticles_length:
  "length (particles (pushParticles n px py col w)) = length (particles w) + n"
  by (induction n arbitrary: w) (simp_all add: case_prod_beta)

lemma activatePowerUp_health: "activatePowerUp (Some HEALTH) now p = p"
  by (simp add: activatePowerUp_def)

lemma powerUpPassOnly_refl: "powerUpPassOnly w w"
proof -
  have "w = w\<lparr> powerUps := powerUps w, particles := particles w, random := random w,
               player := player w \<rparr>" by simp
  then show ?thesis unfolding powerUpPassOnly_def by blast
qed

lemma powerUpPassOnly_trans:
  assumes "powerUpPassOnly w w1" and "powerUpPassOnly w1 w2"
  shows "powerUpPassOnly w w2"
proof -
  from assms(1) obtain pu pa rs pl where
    1: "w1 = w\<lparr> powerUps := pu, particles := pa, random := rs, player := pl \<rparr>"
    unfolding powerUpPassOnly_def by blast
  from assms(2) obtain pu' pa' rs' pl' where
    2: "w2 = w1\<lparr> powerUps := pu', particles := pa', random := rs', player := pl' \<rparr>"
    unfolding powerUpPassOnly_def by blast
  have "w2 = w\<lparr> powerUps := pu', particles := pa', random := rs', player := pl' \<rparr>"
    unfolding 2 1 by simp
  then show ?thesis unfolding powerUpPassOnly_def by blast
qed

lemma powerUpPassOnly_update:
  "powerUpPassOnly w (w\<lparr> powerUps := pu \<rparr>)"
  "powerUpPassOnly w (w\<lparr> player := pl \<rparr>)"
  "powerUpPassOnly w (w\<lparr> particles := pa, random := rs \<rparr>)"
proof -
  have "w\<lparr> powerUps := pu \<rparr> = w\<lparr> powerUps := pu, particles := particles w, random := random w,
               player := player w \<rparr>" by simp
  then show "powerUpPassOnly w (w\<lparr> powerUps := pu \<rparr>)" unfolding powerUpPassOnly_def by blast
  have "w\<lparr> player := pl \<rparr> = w\<lparr> powerUps := powerUps w, particles := particles w, random := random w,
               player := pl \<rparr>" by simp
  then show "powerUpPassOnly w (w\<lparr> player := pl \<rparr>)" unfolding powerUpPassOnly_def by blast
  have "w\<lparr> particles := pa, random := rs \<rparr> = w\<lparr> powerUps := powerUps w, particles := pa, random := rs,
               player := player w \<rparr>" by simp
  then show "powerUpPassOnly w (w\<lparr> particles := pa, random := rs \<rparr>)"
    unfolding powerUpPassOnly_def by blast
qed

lemma powerUpPassOnly_createExplosion: "powerUpPassOnly w (createExplosion px py col w)"
proof -
  from createExplosion_frame [of px py col w] obtain pa rs where
    "createExplosion px py col w = w\<lparr> particles := pa, random := rs \<rparr>" by blast
  then show ?thesis by (simp only: powerUpPassOnly_update(3))
qed

lemma powerUpCallback_frame: "powerUpPassOnly w (powerUpCallback pu k w)"
proof -
  let ?pu = "PowerUp_update pu"
  let ?w1 = "w\<lparr> powerUps := (powerUps w)[k := ?pu] \<rparr>"
  let ?w2 = "?w1\<lparr> player := activatePowerUp (powerUp.type ?pu) (dateNow ?w1) (player ?w1) \<rparr>"
  let ?w3 = "?w2\<lparr> powerUps := splice1 k (powerUps ?w2) \<rparr>"
  have 1: "powerUpPassOnly w ?w1" by (rule powerUpPassOnly_update)
  have 2: "powerUpPassOnly w ?w2"
    by (rule powerUpPassOnly_trans [OF 1 powerUpPassOnly_update(2)])
  have 3: "powerUpPassOnly w ?w3"
    by (rule powerUpPassOnly_trans [OF 2 powerUpPassOnly_update(1)])
  have 4: "powerUpPassOnly w (createExplosion (x ?pu) (y ?pu) (powerUp.color ?pu) ?w3)"
    by (rule powerUpPassOnly_trans [OF 3 powerUpPassOnly_createExplosion])
  have 5: "powerUpPassOnly w (?w1\<lparr> powerUps := splice1 k (powerUps ?w1) \<rparr>)"
    by (rule powerUpPassOnly_trans [OF 1 powerUpPassOnly_update(1)])
  have "powerUpCallback pu k w =
          (if y ?pu > GAME_HEIGHT then ?w1\<lparr> powerUps := splice1 k (powerUps ?w1) \<rparr>
           else if PowerUp_checkCollision ?pu (player ?w1)
           then createExplosion (x ?pu) (y ?pu) (powerUp.color ?pu) ?w3
           else ?w1)"
    by (simp only: powerUpCallback_def Let_def)
  with 1 4 5 show ?thesis by presburger
qed

lemma forEachFrom_frame:
  assumes "\<And>a k s. R s (f a k s)" and "\<And>s. R s s" and "\<And>s t u. R s t \<Longrightarrow> R t u \<Longrightarrow> R s u"
  shows "R s (forEachFrom arr f k n s)"
proof (induction n arbitrary: k s)
  case 0
  then show ?case by (simp add: assms(2))
next
  case (Suc n)
  let ?s1 = "if k < length (arr s) then f (arr s ! k) k s else s"
  have a: "R s ?s1" by (simp add: assms(1,2))
  have b: "R ?s1 (forEachFrom arr f (Suc k) n ?s1)" by (rule Suc.IH)
  have "forEachFrom arr f k (Suc n) s = forEachFrom arr f (Suc k) n ?s1" by simp
  with assms(3) [OF a b] show ?case by simp
qed

lemma powerUp_pass_frame: "powerUpPassOnly w (forEach powerUps powerUpCallback w)"
  unfolding forEach_def
  by (rule forEachFrom_frame [where R = powerUpPassOnly, OF powerUpCallback_frame
        powerUpPassOnly_refl powerUpPassOnly_trans])

lemma PowerUp_update_type [simp]: "powerUp.type (PowerUp_update pu) = powerUp.type pu"
  by (simp add: PowerUp_update_def Let_def)

lemma powerUpCallback_health:
  assumes "powerUp.type c = Some HEALTH"
  shows "\<exists>pu pa rs. powerUpCallback c k w = w\<lparr> powerUps := pu, particles := pa, random := rs \<rparr>"
proof -
  let ?pu = "PowerUp_update c"
  let ?w1 = "w\<lparr> powerUps := (powerUps w)[k := ?pu] \<rparr>"
  let ?w3 = "w\<lparr> powerUps := splice1 k ((powerUps w)[k := ?pu]) \<rparr>"
  have t: "activatePowerUp (powerUp.type ?pu) (dateNow ?w1) (player ?w1) = player w"
    using assms by (simp add: activatePowerUp_health)
  have eq: "powerUpCallback c k w =
          (if y ?pu > GAME_HEIGHT then ?w3
           else if PowerUp_checkCollision ?pu (player w)
           then createExplosion (x ?pu) (y ?pu) (powerUp.color ?pu) ?w3
           else ?w1)"
    unfolding powerUpCallback_def Let_def t by simp
  from createExplosion_frame [of "x ?pu" "y ?pu" "powerUp.color ?pu" ?w3] obtain pa rs where
    "createExplosion (x ?pu) (y ?pu) (powerUp.color ?pu) ?w3 = ?w3\<lparr> particles := pa, random := rs \<rparr>"
    by blast
  then have e1: "createExplosion (x ?pu) (y ?pu) (powerUp.color ?pu) ?w3 =
      w\<lparr> powerUps := splice1 k ((powerUps w)[k := ?pu]), particles := pa, random := rs \<rparr>"
    by simp
  have e2: "?w3 = w\<lparr> powerUps := splice1 k ((powerUps w)[k := ?pu]), particles := particles w,
      random := random w \<rparr>" by simp
  have e3: "?w1 = w\<lparr> powerUps := (powerUps w)[k := ?pu], particles := particles w,
      random := random w \<rparr>" by simp
  consider "powerUpCallback c k w = ?w3"
    | "powerUpCallback c k w = createExplosion (x ?pu) (y ?pu) (powerUp.color ?pu) ?w3"
    | "powerUpCallback c k w = ?w1"
    using eq by presburger
  then show ?thesis
  proof cases
    case 1
    with e2 show ?thesis by metis
  next
    case 2
    with e1 show ?thesis by metis
  next
    case 3
    with e3 show ?thesis by metis
  qed
qed

text \<open>
  C10.  The claim reads: \<open>activatePowerUp(HEALTH)\<close> leaves every field of the player
  unchanged, and the collection branch of the game loop never increments the health for
  any power-up type, its only effects being the removal of the power-up and the spawning
  of particles.  The branch first calls \<^verbatim>\<open>player.activatePowerUp(powerUp.type)\<close>: a Shield
  that reaches the player is removed and spawns ten particles, and it also raises the
  player's shield and sets its timer, so the frame is no update of the power-up list,
  the particles and the random source alone.
\<close>

theorem shield_pickup_changes_player:
  "\<not> hasShield (player shieldPickup) \<and>
   powerUps (forEach powerUps powerUpCallback shieldPickup) = [] \<and>
   length (particles (forEach powerUps powerUpCallback shieldPickup)) = 10 \<and>
   hasShield (player (forEach powerUps powerUpCallback shieldPickup)) \<and>
   shieldTimer (player (forEach powerUps powerUpCallback shieldPickup)) = 5000 \<and>
   \<not> (\<exists>pu pa rs. forEach powerUps powerUpCallback shieldPickup =
         shieldPickup\<lparr> powerUps := pu, particles := pa, random := rs \<rparr>)"
proof -
  let ?w = "forEach powerUps powerUpCallback shieldPickup"
  have before: "\<not> hasShield (player shieldPickup)"
    by (simp add: shieldPickup_def initialWorld_def Player_new_def)
  have after: "powerUps ?w = []" "length (particles ?w) = 10"
    "hasShield (player ?w)" "shieldTimer (player ?w) = 5000"
    by (simp_all add: forEach_def shieldPickup_def initialWorld_def powerUpCallback_def
        createExplosion_def pushParticles_proj pushParticles_length PowerUp_update_def
        PowerUp_new_def PowerUp_checkCollision_def activatePowerUp_def Player_new_def
        splice1_def GAME_HEIGHT_def GAME_WIDTH_def Let_def)
  have "\<not> (\<exists>pu pa rs. ?w = shieldPickup\<lparr> powerUps := pu, particles := pa, random := rs \<rparr>)"
  proof
    assume "\<exists>pu pa rs. ?w = shieldPickup\<lparr> powerUps := pu, particles := pa, random := rs \<rparr>"
    then obtain pu pa rs where
      "?w = shieldPickup\<lparr> powerUps := pu, particles := pa, random := rs \<rparr>" by blast
    then have "player ?w = player shieldPickup" by simp
    with before after(3) show False by simp
  qed
  with before after show ?thesis by blast
qed

text \<open>
  C10, as amended.  \<open>activatePowerUp(HEALTH)\<close> returns the player unchanged.  The
  power-up pass of the game loop changes nothing but the power-up list, the particles,
  the random source (read by the particles) and the player; \<open>gameState\<close>, and so the
  health, is as before for every type of power-up.  The callback on a HEALTH power-up
  leaves the player alone too: it moves or removes the power-up and may spawn particles.
\<close>

theorem health_powerUp_restores_nothing:
  "activatePowerUp (Some HEALTH) now p = p \<and>
   (\<exists>pu pa rs pl. forEach powerUps powerUpCallback w =
       w\<lparr> powerUps := pu, particles := pa, random := rs, player := pl \<rparr>) \<and>
   health (gameState (forEach powerUps powerUpCallback w)) = health (gameState w) \<and>
   (\<exists>pu pa rs. powerUpCallback (c\<lparr> powerUp.type := Some HEALTH \<rparr>) k w =
       w\<lparr> powerUps := pu, particles := pa, random := rs \<rparr>)"
proof -
  from powerUp_pass_frame [of w] obtain pu pa rs pl where
    f: "forEach powerUps powerUpCallback w =
       w\<lparr> powerUps := pu, particles := pa, random := rs, player := pl \<rparr>"
    unfolding powerUpPassOnly_def by blast
  then have h: "health (gameState (forEach powerUps powerUpCallback w)) = health (gameState w)"
    by simp
  have t: "powerUp.type (c\<lparr> powerUp.type := Some HEALTH \<rparr>) = Some HEALTH" by simp
  show ?thesis
    using f h powerUpCallback_health [OF t, of k w] activatePowerUp_health by blast
qed

subsection \<open>The bullet pass\<close>



lemma shots_collide:
  "checkBulletCollision (Bullet_update playerShot) (Bullet_update enemyShot)"
  "checkBulletCollision (Bullet_update playerShot) enemyShot"
  by (simp_all add: checkBulletCollision_def Bullet_update_def playerShot_def enemyShot_def
      Bullet_new_def Let_def)

text \<open>
  C6.  On an interception the loop runs \<^verbatim>\<open>bullets.splice(enemyBulletIndex, 1)\<close> and then
  \<^verbatim>\<open>bullets.splice(playerBulletIndex, 1)\<close>.  When the enemy bullet sits before the
  player bullet in the array, the first splice moves the player bullet down one place
  and the second misses it: the score rises by 10 and the player bullet stays.  With
  the player bullet first, both go.
\<close>

theorem interception_leaves_player_bullet:
  "bullets (forEach bullets (bulletCallback initialGameState) (interceptWorld [enemyShot, playerShot]))
     = [Bullet_update playerShot] \<and>
   score (gameState (forEach bullets (bulletCallback initialGameState)
                      (interceptWorld [enemyShot, playerShot]))) = 10 \<and>
   bullets (forEach bullets (bulletCallback initialGameState) (interceptWorld [playerShot, enemyShot]))
     = [] \<and>
   score (gameState (forEach bullets (bulletCallback initialGameState)
                      (interceptWorld [playerShot, enemyShot]))) = 10"
  by (simp add: forEach_def interceptWorld_def initialWorld_def bulletCallback_def
      pushParticles_proj initialGameState_def splice1_def
      checkBulletCollision_def Bullet_checkCollision_def Bullet_update_def playerShot_def
      enemyShot_def Bullet_new_def Player_new_def GAME_HEIGHT_def GAME_WIDTH_def Let_def)

lemma dropPowerUp_none:
  assumes "outcomes rs = (\<lambda>_. r)" and "r > dropPowerUpChance e"
  shows "fst (dropPowerUp e rs) = None"
  using assms by (simp add: dropPowerUp_def Math_random_def Let_def)






subsection \<open>The main effect after game over\<close>

text \<open>
  \<open>isGameOver\<close> is a dependency of the main effect, so the effect runs again on the render
  that follows the fatal hit. The stars are the only thing \<open>pushStars\<close> touches.
\<close>

lemma pushStars_frame:
  "\<exists>st rs. pushStars n w = w\<lparr> stars := st, random := rs \<rparr>"
proof (induction n arbitrary: w)
  case 0
  have "pushStars 0 w = w\<lparr> stars := stars w, random := random w \<rparr>" by simp
  then show ?case by blast
next
  case (Suc n)
  obtain r1 rs1 where 1: "Math_random (random w) = (r1, rs1)"
    by (cases "Math_random (random w)")
  obtain r2 rs2 where 2: "Math_random rs1 = (r2, rs2)"
    by (cases "Math_random rs1")
  obtain s rs3 where 3: "Star_new (r1 * GAME_WIDTH) (r2 * GAME_HEIGHT) rs2 = (s, rs3)"
    by (cases "Star_new (r1 * GAME_WIDTH) (r2 * GAME_HEIGHT) rs2")
  let ?w1 = "w\<lparr> stars := stars w @ [s], random := rs3 \<rparr>"
  from Suc.IH [of ?w1] obtain st rs where
    "pushStars n ?w1 = ?w1\<lparr> stars := st, random := rs \<rparr>" by blast
  then have "pushStars (Suc n) w = w\<lparr> stars := st, random := rs \<rparr>"
    by (simp add: 1 2 3)
  then show ?case by blast
qed

text \<open>
  Run with a game-over state and no timer pending, the main effect starts a loop that halts
  at once, but \<open>initializeLevel\<close> still arms the wave spawn of the current level and the
  grace window.
\<close>

lemma mainEffect_after_game_over:
  assumes "isGameOver gs" and "\<not> isPaused gs" and "canvasReady w" and "timers w = []"
  shows "map task (timers (mainEffect gs w))
           = [InitialSpawn (level gs), EnableProgression, InitialSpawn (level gs)]"
    and "gameJustStartedRef (mainEffect gs w)"
    and "bullets (mainEffect gs w) = []"
proof -
  let ?w1 = "w\<lparr> player := Player_new (GAME_WIDTH / 2) (GAME_HEIGHT - 50),
                 bullets := [], powerUps := [], particles := [], explosions := [],
                 stars := [], world.lastShot := 0, isGameOverSoundPlayed := False,
                 animationFrameId := None \<rparr>"
  from pushStars_frame [of STAR_COUNT ?w1] obtain st rs where
    s: "pushStars STAR_COUNT ?w1 = ?w1\<lparr> stars := st, random := rs \<rparr>" by blast
  show "map task (timers (mainEffect gs w))
           = [InitialSpawn (level gs), EnableProgression, InitialSpawn (level gs)]"
    "gameJustStartedRef (mainEffect gs w)"
    "bullets (mainEffect gs w) = []"
    using assms
    by (simp_all add: mainEffect_def s initializeLevel_def gameLoop_def setTimeout_def
        clearTimeout_def truthy_def Let_def split: option.splits)
qed

end
